theory Spec2Isabelle
  imports Complex_Main "HOL-Library.Log_Nat"
begin

section \<open>JavaScript values\<close>

text \<open>
  The adapters of \<^verbatim>\<open>src/adapters/opensource-llm.ts\<close> read the parsed body of an HTTP
  response, which TypeScript types as \<^verbatim>\<open>any\<close>, and build object literals. Both are
  modelled as values of one datatype. An object is the list of its properties in insertion
  order (property names are unique, as in an object literal and in the result of
  \<^verbatim>\<open>JSON.parse\<close>). A number is an IEEE double: \<open>JNum r\<close> stands for the double
  nearest to the rational \<open>r\<close>, as \<^verbatim>\<open>JSON.parse\<close> reads the number literal \<open>r\<close>; the
  negative zero, the infinities and \<^verbatim>\<open>NaN\<close> have constructors of their own.
\<close>

datatype jsval =
    JUndefined
  | JNull
  | JBool bool
  | JNum rat
  | JNegZero
  | JInfinity
  | JNegInfinity
  | JNaN
  | JStr string
  | JArr "jsval list"
  | JObj "(string \<times> jsval) list"

text \<open>A thrown value: an instance of \<^verbatim>\<open>Error\<close> with its message, or anything else.\<close>

datatype js_thrown =
    ErrorObj string
  | NonError jsval

text \<open>Sequencing of steps that may throw.\<close>

definition and_then :: "js_thrown + 'a \<Rightarrow> ('a \<Rightarrow> js_thrown + 'b) \<Rightarrow> js_thrown + 'b" where
  "and_then r f = (case r of Inl e \<Rightarrow> Inl e | Inr v \<Rightarrow> f v)"

subsection \<open>Doubles\<close>

text \<open>
  The values of the IEEE 754 binary64 format: the finite ones by their rational value,
  with the positive zero as \<open>Finite 0\<close>.
\<close>

datatype double =
    Finite rat
  | NegZero
  | PosInf
  | NegInf
  | NaN

text \<open>The integer part of the binary logarithm of a positive rational.\<close>

definition floor_log2 :: "rat \<Rightarrow> int" where
  "floor_log2 r = (if 1 \<le> r then bitlen \<lfloor>r\<rfloor> - 1 else - bitlen (\<lceil>1 / r\<rceil> - 1))"

text \<open>The nearest integer to a rational that is not negative; a tie goes to the even one.\<close>

definition round_half_even :: "rat \<Rightarrow> int" where
  "round_half_even q =
     (let n = \<lfloor>q\<rfloor>; f = q - of_int n
      in if f < 1 / 2 then n else if 1 / 2 < f then n + 1 else if even n then n else n + 1)"

text \<open>
  Rounding to the nearest double, ties to even: with the exponent \<open>e\<close> of the number,
  not below that of the subnormal numbers, the result is the nearest multiple of
  \<open>2\<^sup>e\<^sup>-\<^sup>5\<^sup>2\<close>; it overflows to an infinity from \<open>2\<^sup>1\<^sup>0\<^sup>2\<^sup>4\<close> on and underflows to a zero
  of the sign of the number.
\<close>

definition binary64 :: "rat \<Rightarrow> double" where
  "binary64 r =
     (if r = 0 then Finite 0
      else
        let e = max (floor_log2 \<bar>r\<bar>) (- 1022);
            q = 2 powi (e - 52);
            m = of_int (round_half_even (\<bar>r\<bar> / q)) * q
        in if 2 ^ 1024 \<le> m then (if r < 0 then NegInf else PosInf)
           else if m = 0 then (if r < 0 then NegZero else Finite 0)
           else Finite (if r < 0 then - m else m))"

text \<open>The addition of doubles: the exact sum of finite doubles, rounded.\<close>

fun double_add :: "double \<Rightarrow> double \<Rightarrow> double" where
  "double_add NaN y = NaN"
| "double_add x NaN = NaN"
| "double_add PosInf NegInf = NaN"
| "double_add NegInf PosInf = NaN"
| "double_add PosInf y = PosInf"
| "double_add x PosInf = PosInf"
| "double_add NegInf y = NegInf"
| "double_add x NegInf = NegInf"
| "double_add NegZero y = y"
| "double_add x NegZero = x"
| "double_add (Finite x) (Finite y) = binary64 (x + y)"

fun of_double :: "double \<Rightarrow> jsval" where
  "of_double (Finite r) = JNum r"
| "of_double NegZero = JNegZero"
| "of_double PosInf = JInfinity"
| "of_double NegInf = JNegInfinity"
| "of_double NaN = JNaN"

fun is_zero :: "double \<Rightarrow> bool" where
  "is_zero (Finite r) = (r = 0)"
| "is_zero NegZero = True"
| "is_zero d = False"

text \<open>\<^verbatim>\<open>ToBoolean\<close>, which decides \<^verbatim>\<open>a || b\<close> and \<^verbatim>\<open>!a\<close>.\<close>

fun truthy :: "jsval \<Rightarrow> bool" where
  "truthy JUndefined = False"
| "truthy JNull = False"
| "truthy (JBool b) = b"
| "truthy (JNum r) = (\<not> is_zero (binary64 r))"
| "truthy JNegZero = False"
| "truthy JInfinity = True"
| "truthy JNegInfinity = True"
| "truthy JNaN = False"
| "truthy (JStr s) = (s \<noteq> [])"
| "truthy (JArr xs) = True"
| "truthy (JObj ps) = True"

definition js_or :: "jsval \<Rightarrow> jsval \<Rightarrow> jsval" where
  "js_or a b = (if truthy a then a else b)"

fun nullish :: "jsval \<Rightarrow> bool" where
  "nullish JUndefined = True"
| "nullish JNull = True"
| "nullish v = False"

text \<open>
  Reading a property \<^verbatim>\<open>v.name\<close> of a value that is neither \<^verbatim>\<open>undefined\<close> nor
  \<^verbatim>\<open>null\<close>. Only own properties of objects are modelled: the adapters read no name that
  a prototype defines.
\<close>

fun own_prop :: "jsval \<Rightarrow> string \<Rightarrow> jsval" where
  "own_prop (JObj ps) name = (case map_of ps name of Some v \<Rightarrow> v | None \<Rightarrow> JUndefined)"
| "own_prop v name = JUndefined"

text \<open>Reading \<^verbatim>\<open>v[0]\<close> of a value that is neither \<^verbatim>\<open>undefined\<close> nor \<^verbatim>\<open>null\<close>.\<close>

fun own_index0 :: "jsval \<Rightarrow> jsval" where
  "own_index0 (JArr xs) = (case xs of [] \<Rightarrow> JUndefined | x # _ \<Rightarrow> x)"
| "own_index0 (JObj ps) = (case map_of ps ''0'' of Some v \<Rightarrow> v | None \<Rightarrow> JUndefined)"
| "own_index0 (JStr s) = (case s of [] \<Rightarrow> JUndefined | c # _ \<Rightarrow> JStr [c])"
| "own_index0 v = JUndefined"

text \<open>The message of the \<^verbatim>\<open>TypeError\<close> that Node.js raises on \<^verbatim>\<open>null.name\<close>.\<close>

definition cannot_read :: "jsval \<Rightarrow> string \<Rightarrow> js_thrown" where
  "cannot_read v name =
     ErrorObj (''Cannot read properties of '' @ (if v = JNull then ''null'' else ''undefined'')
               @ '' (reading '' @ [CHR 39] @ name @ [CHR 39] @ '')'')"

text \<open>\<^verbatim>\<open>v.name\<close>, which throws on \<^verbatim>\<open>undefined\<close> and \<^verbatim>\<open>null\<close>.\<close>

definition get_prop :: "jsval \<Rightarrow> string \<Rightarrow> js_thrown + jsval" where
  "get_prop v name = (if nullish v then Inl (cannot_read v name) else Inr (own_prop v name))"

text \<open>Optional chaining: \<^verbatim>\<open>v?.name\<close> and \<^verbatim>\<open>v?.[0]\<close>.\<close>

definition opt_prop :: "jsval \<Rightarrow> string \<Rightarrow> jsval" where
  "opt_prop v name = (if nullish v then JUndefined else own_prop v name)"

definition opt_index0 :: "jsval \<Rightarrow> jsval" where
  "opt_index0 v = (if nullish v then JUndefined else own_index0 v)"

subsection \<open>The addition operator\<close>

text \<open>
  \<^verbatim>\<open>ToString\<close>. An array is the comma-separated strings of its elements, with nothing
  for \<^verbatim>\<open>undefined\<close> and \<^verbatim>\<open>null\<close>. An object is \<^verbatim>\<open>[object Object]\<close>, by the method
  \<^verbatim>\<open>toString\<close> of its prototype; an own property \<^verbatim>\<open>toString\<close> hides that method, is
  not callable in a parsed body, and the conversion throws a \<^verbatim>\<open>TypeError\<close>. The printing
  of a finite number is the engine's; it is the parameter \<open>ns\<close>.
\<close>

fun join_comma :: "string list \<Rightarrow> string" where
  "join_comma [] = []"
| "join_comma [s] = s"
| "join_comma (s # t # ss) = s @ '','' @ join_comma (t # ss)"

definition cannot_convert :: js_thrown where
  "cannot_convert = ErrorObj ''Cannot convert object to primitive value''"

fun number_to_string :: "(rat \<Rightarrow> string) \<Rightarrow> double \<Rightarrow> string" where
  "number_to_string ns (Finite r) = ns r"
| "number_to_string ns NegZero = ''0''"
| "number_to_string ns PosInf = ''Infinity''"
| "number_to_string ns NegInf = ''-Infinity''"
| "number_to_string ns NaN = ''NaN''"

text \<open>The results of a list of steps, or what the first failing one threw.\<close>

fun all_results :: "(js_thrown + 'a) list \<Rightarrow> js_thrown + 'a list" where
  "all_results [] = Inr []"
| "all_results (Inl e # rs) = Inl e"
| "all_results (Inr v # rs) = (case all_results rs of Inl e \<Rightarrow> Inl e | Inr vs \<Rightarrow> Inr (v # vs))"

fun js_to_string :: "(rat \<Rightarrow> string) \<Rightarrow> jsval \<Rightarrow> js_thrown + string" where
  "js_to_string ns JUndefined = Inr ''undefined''"
| "js_to_string ns JNull = Inr ''null''"
| "js_to_string ns (JBool b) = Inr (if b then ''true'' else ''false'')"
| "js_to_string ns (JNum r) = Inr (number_to_string ns (binary64 r))"
| "js_to_string ns JNegZero = Inr ''0''"
| "js_to_string ns JInfinity = Inr ''Infinity''"
| "js_to_string ns JNegInfinity = Inr ''-Infinity''"
| "js_to_string ns JNaN = Inr ''NaN''"
| "js_to_string ns (JStr s) = Inr s"
| "js_to_string ns (JArr xs) =
     (case all_results (map (\<lambda>v. if nullish v then Inr [] else js_to_string ns v) xs) of
        Inl e \<Rightarrow> Inl e
      | Inr ss \<Rightarrow> Inr (join_comma ss))"
| "js_to_string ns (JObj ps) =
     (if map_of ps ''toString'' \<noteq> None then Inl cannot_convert
      else Inr ''[object Object]'')"

text \<open>
  \<^verbatim>\<open>a + b\<close> converts both operands to primitives, the left one first. An array or an
  object becomes its string, or the conversion throws. When either primitive is a string
  the strings of both are concatenated; otherwise both are numbers and are added as
  doubles.
\<close>

fun concatenates :: "jsval \<Rightarrow> bool" where
  "concatenates (JStr s) = True"
| "concatenates (JArr xs) = True"
| "concatenates (JObj ps) = True"
| "concatenates v = False"

text \<open>
  \<^verbatim>\<open>ToNumber\<close> on the primitives that are not strings. (An operand that concatenates
  never reaches it.)
\<close>

fun to_number :: "jsval \<Rightarrow> double" where
  "to_number (JNum r) = binary64 r"
| "to_number JNegZero = NegZero"
| "to_number JInfinity = PosInf"
| "to_number JNegInfinity = NegInf"
| "to_number JNaN = NaN"
| "to_number (JBool b) = Finite (if b then 1 else 0)"
| "to_number JNull = Finite 0"
| "to_number v = NaN"

definition js_add :: "(rat \<Rightarrow> string) \<Rightarrow> jsval \<Rightarrow> jsval \<Rightarrow> js_thrown + jsval" where
  "js_add ns a b =
     (if concatenates a \<or> concatenates b then
        and_then (js_to_string ns a) (\<lambda>s.
        and_then (js_to_string ns b) (\<lambda>t.
          Inr (JStr (s @ t))))
      else Inr (of_double (double_add (to_number a) (to_number b))))"

subsection \<open>JSON.stringify\<close>

text \<open>
  \<^verbatim>\<open>JSON.stringify\<close> up to the concrete text: the JSON value that the emitted text
  denotes. A property whose value is \<^verbatim>\<open>undefined\<close> is left out; an \<^verbatim>\<open>undefined\<close>
  array element, \<^verbatim>\<open>NaN\<close> and the infinities are written as \<^verbatim>\<open>null\<close>, the negative
  zero as \<^verbatim>\<open>0\<close>.
\<close>

fun json_stringify :: "jsval \<Rightarrow> jsval" where
  "json_stringify (JArr xs) =
     JArr (map (\<lambda>v. if v = JUndefined then JNull else json_stringify v) xs)"
| "json_stringify (JObj ps) =
     JObj (map (\<lambda>(k, v). (k, json_stringify v)) (filter (\<lambda>(k, v). v \<noteq> JUndefined) ps))"
| "json_stringify JNaN = JNull"
| "json_stringify JInfinity = JNull"
| "json_stringify JNegInfinity = JNull"
| "json_stringify JNegZero = JNum 0"
| "json_stringify v = v"

text \<open>The properties of an object, in insertion order.\<close>

fun props :: "jsval \<Rightarrow> (string \<times> jsval) list" where
  "props (JObj ps) = ps"
| "props v = []"

text \<open>Decimal digits of a natural number, as a template literal prints an HTTP status.\<close>

fun show_nat :: "nat \<Rightarrow> string" where
  "show_nat n =
     (if n < 10 then [''0123456789'' ! n]
      else show_nat (n div 10) @ [''0123456789'' ! (n mod 10)])"

declare show_nat.simps [simp del]

text \<open>
  The printing of a number on the integers below \<open>10\<^sup>2\<^sup>1\<close> in absolute value, where every
  engine prints the decimal digits.
\<close>

definition print_integer :: "rat \<Rightarrow> string" where
  "print_integer r = (if r < 0 then ''-'' else []) @ show_nat (nat \<lfloor>\<bar>r\<bar>\<rfloor>)"

section \<open>The adapter contract\<close>

text \<open>
  Modelled from the spec: the type \<^verbatim>\<open>LLMCallOptions\<close> is declared by the workflow
  library, which is not among the sources. Its shape is
  \<^verbatim>\<open>{ model, messages: [{content}], baseUrl?, apiKey?, temperature?, maxTokens?, responseFormat? }\<close>.
  An optional field that is absent is \<open>None\<close>.
\<close>

record message =
  content :: "string option"

record response_format =
  rf_type :: string

record call_options =
  model :: string
  messages :: "message list"
  baseUrl :: "string option"
  apiKey :: "string option"
  temperature :: "rat option"
  maxTokens :: "rat option"
  responseFormat :: "response_format option"

text \<open>\<^verbatim>\<open>x || d\<close> on an optional string and on an optional number.\<close>

definition str_or :: "string option \<Rightarrow> string \<Rightarrow> string" where
  "str_or x d = (case x of None \<Rightarrow> d | Some s \<Rightarrow> if s = [] then d else s)"

definition num_or :: "rat option \<Rightarrow> rat \<Rightarrow> rat" where
  "num_or x d = (case x of None \<Rightarrow> d | Some n \<Rightarrow> if n = 0 then d else n)"

text \<open>\<^verbatim>\<open>options.messages[0]?.content || ''\<close>\<close>

definition first_content :: "call_options \<Rightarrow> string" where
  "first_content options =
     (case messages options of
        [] \<Rightarrow> []
      | m # _ \<Rightarrow> str_or (content m) [])"

text \<open>\<^verbatim>\<open>options.responseFormat?.type === 'json_object'\<close>\<close>

definition wants_json :: "call_options \<Rightarrow> bool" where
  "wants_json options =
     (case responseFormat options of
        None \<Rightarrow> False
      | Some f \<Rightarrow> rf_type f = ''json_object'')"

text \<open>An optional string inside a template literal.\<close>

definition interpolate :: "string option \<Rightarrow> string" where
  "interpolate x = (case x of None \<Rightarrow> ''undefined'' | Some s \<Rightarrow> s)"

subsection \<open>fetch\<close>

text \<open>
  A request as \<^verbatim>\<open>fetch\<close> receives it; the body is the value that
  \<^verbatim>\<open>JSON.stringify\<close> wrote. A response carries its status line and the outcome of
  \<^verbatim>\<open>response.json()\<close>; \<^verbatim>\<open>response.ok\<close> holds for the statuses 200 to 299.
  The network is a function from the request to what \<^verbatim>\<open>fetch\<close> settles with.
\<close>

record http_request =
  url :: string
  http_method :: string
  headers :: "(string \<times> string) list"
  body :: jsval

record http_response =
  status :: nat
  statusText :: string
  json :: "js_thrown + jsval"

definition ok :: "http_response \<Rightarrow> bool" where
  "ok response = (200 \<le> status response \<and> status response \<le> 299)"

datatype fetch_outcome =
    Rejected js_thrown
  | Resolved http_response

type_synonym network = "http_request \<Rightarrow> fetch_outcome"

text \<open>A network that settles every request alike.\<close>

definition answering :: "fetch_outcome \<Rightarrow> network" where
  "answering outcome = (\<lambda>request. outcome)"

text \<open>\<^verbatim>\<open>v[0]\<close>, which throws on \<^verbatim>\<open>undefined\<close> and \<^verbatim>\<open>null\<close>.\<close>

definition get_index0 :: "jsval \<Rightarrow> js_thrown + jsval" where
  "get_index0 v = (if nullish v then Inl (cannot_read v ''0'') else Inr (own_index0 v))"

text \<open>
  The \<^verbatim>\<open>catch\<close> block of every adapter, with
  \<^verbatim>\<open>error instanceof Error ? error.message : 'Unknown error'\<close>.
\<close>

definition error_message :: "js_thrown \<Rightarrow> string" where
  "error_message error =
     (case error of ErrorObj message \<Rightarrow> message | NonError v \<Rightarrow> ''Unknown error'')"

definition catch_rethrow :: "string \<Rightarrow> js_thrown + jsval \<Rightarrow> js_thrown + jsval" where
  "catch_rethrow prefix r =
     (case r of
        Inr v \<Rightarrow> Inr v
      | Inl error \<Rightarrow> Inl (ErrorObj (prefix @ error_message error)))"

subsection \<open>Ollama\<close>

definition ollama_request :: "call_options \<Rightarrow> http_request" where
  "ollama_request options =
     \<lparr> url = str_or (baseUrl options) ''http://localhost:11434'' @ ''/api/generate'',
       http_method = ''POST'',
       headers = [(''Content-Type'', ''application/json'')],
       body = json_stringify (JObj
         [(''model'', JStr (model options)),
          (''prompt'', JStr (first_content options)),
          (''options'', JObj
             [(''temperature'', JNum (num_or (temperature options) (7 / 10))),
              (''num_predict'', JNum (num_or (maxTokens options) 2048))]),
          (''stream'', JBool False),
          (''format'', if wants_json options then JStr ''json'' else JUndefined)]) \<rparr>"

definition ollama_try :: "(rat \<Rightarrow> string) \<Rightarrow> fetch_outcome \<Rightarrow> js_thrown + jsval" where
  "ollama_try ns outcome =
     (case outcome of
        Rejected e \<Rightarrow> Inl e
      | Resolved response \<Rightarrow>
          if \<not> ok response then
            Inl (ErrorObj (''Ollama API error: '' @ show_nat (status response) @ '' ''
                           @ statusText response))
          else
            and_then (json response) (\<lambda>data.
            and_then (get_prop data ''response'') (\<lambda>r.
            and_then (get_prop data ''prompt_eval_count'') (\<lambda>p.
            and_then (get_prop data ''eval_count'') (\<lambda>c.
            and_then (get_prop data ''prompt_eval_count'') (\<lambda>p'.
            and_then (get_prop data ''eval_count'') (\<lambda>c'.
            and_then (js_add ns (js_or p' (JNum 0)) (js_or c' (JNum 0))) (\<lambda>total.
              Inr (JObj
                [(''content'', r),
                 (''usage'', JObj
                    [(''prompt_tokens'', js_or p (JNum 0)),
                     (''completion_tokens'', js_or c (JNum 0)),
                     (''total_tokens'', total)])])))))))))"

definition ollamaAdapter :: "(rat \<Rightarrow> string) \<Rightarrow> call_options \<Rightarrow> network \<Rightarrow> js_thrown + jsval" where
  "ollamaAdapter ns options fetch =
     catch_rethrow ''Ollama adapter failed: '' (ollama_try ns (fetch (ollama_request options)))"

subsection \<open>vLLM\<close>

definition vllm_request :: "call_options \<Rightarrow> http_request" where
  "vllm_request options =
     \<lparr> url = str_or (baseUrl options) ''http://localhost:8000'' @ ''/v1/completions'',
       http_method = ''POST'',
       headers = [(''Content-Type'', ''application/json''),
                  (''Authorization'', ''Bearer '' @ interpolate (apiKey options))],
       body = json_stringify (JObj
         ([(''model'', JStr (model options)),
           (''prompt'', JStr (first_content options)),
           (''max_tokens'', JNum (num_or (maxTokens options) 2048)),
           (''temperature'', JNum (num_or (temperature options) (7 / 10))),
           (''echo'', JBool False)]
          @ (if wants_json options then [(''guided_json'', JObj [])] else []))) \<rparr>"

definition vllm_try :: "fetch_outcome \<Rightarrow> js_thrown + jsval" where
  "vllm_try outcome =
     (case outcome of
        Rejected e \<Rightarrow> Inl e
      | Resolved response \<Rightarrow>
          if \<not> ok response then
            Inl (ErrorObj (''vLLM API error: '' @ show_nat (status response) @ '' ''
                           @ statusText response))
          else
            and_then (json response) (\<lambda>data.
            and_then (get_prop data ''choices'') (\<lambda>choices.
              let choice = opt_index0 choices in
              if \<not> truthy choice then Inl (ErrorObj ''No completion returned from vLLM'')
              else
                and_then (get_prop choice ''text'') (\<lambda>text.
                and_then (get_prop data ''usage'') (\<lambda>u1.
                and_then (get_prop data ''usage'') (\<lambda>u2.
                and_then (get_prop data ''usage'') (\<lambda>u3.
                  Inr (JObj
                    [(''content'', text),
                     (''usage'', JObj
                        [(''prompt_tokens'', js_or (opt_prop u1 ''prompt_tokens'') (JNum 0)),
                         (''completion_tokens'',
                            js_or (opt_prop u2 ''completion_tokens'') (JNum 0)),
                         (''total_tokens'',
                            js_or (opt_prop u3 ''total_tokens'') (JNum 0))])]))))))))"

definition vllmAdapter :: "call_options \<Rightarrow> network \<Rightarrow> js_thrown + jsval" where
  "vllmAdapter options fetch =
     catch_rethrow ''vLLM adapter failed: '' (vllm_try (fetch (vllm_request options)))"

subsection \<open>Text Generation Inference\<close>

definition tgi_request :: "call_options \<Rightarrow> http_request" where
  "tgi_request options =
     \<lparr> url = str_or (baseUrl options) ''http://localhost:8080'' @ ''/generate'',
       http_method = ''POST'',
       headers = [(''Content-Type'', ''application/json''),
                  (''Authorization'', ''Bearer '' @ interpolate (apiKey options))],
       body = json_stringify (JObj
         [(''inputs'', JStr (first_content options)),
          (''parameters'', JObj
             ([(''max_new_tokens'', JNum (num_or (maxTokens options) 2048)),
               (''temperature'', JNum (num_or (temperature options) (7 / 10))),
               (''return_full_text'', JBool False)]
              @ (if wants_json options
                 then [(''response_format'', JObj [(''type'', JStr ''json_object'')])]
                 else [])))]) \<rparr>"

definition tgi_try :: "(rat \<Rightarrow> string) \<Rightarrow> fetch_outcome \<Rightarrow> js_thrown + jsval" where
  "tgi_try ns outcome =
     (case outcome of
        Rejected e \<Rightarrow> Inl e
      | Resolved response \<Rightarrow>
          if \<not> ok response then
            Inl (ErrorObj (''TGI API error: '' @ show_nat (status response) @ '' ''
                           @ statusText response))
          else
            and_then (json response) (\<lambda>data.
            and_then (get_prop data ''generated_text'') (\<lambda>g.
            and_then (if truthy g then Inr g
                      else and_then (get_index0 data) (\<lambda>first.
                             Inr (opt_prop first ''generated_text''))) (\<lambda>generatedText.
            and_then (get_prop data ''details'') (\<lambda>d1.
            and_then (get_prop data ''details'') (\<lambda>d2.
            and_then (get_prop data ''details'') (\<lambda>d3.
            and_then (get_prop data ''details'') (\<lambda>d4.
            and_then (js_add ns (js_or (opt_prop d3 ''prompt_tokens'') (JNum 0))
                                (js_or (opt_prop d4 ''generated_tokens'') (JNum 0))) (\<lambda>total.
              Inr (JObj
                [(''content'', generatedText),
                 (''usage'', JObj
                    [(''prompt_tokens'', js_or (opt_prop d1 ''prompt_tokens'') (JNum 0)),
                     (''completion_tokens'',
                        js_or (opt_prop d2 ''generated_tokens'') (JNum 0)),
                     (''total_tokens'', total)])]))))))))))"

definition tgiAdapter :: "(rat \<Rightarrow> string) \<Rightarrow> call_options \<Rightarrow> network \<Rightarrow> js_thrown + jsval" where
  "tgiAdapter ns options fetch =
     catch_rethrow ''TGI adapter failed: '' (tgi_try ns (fetch (tgi_request options)))"

subsection \<open>Registration\<close>

text \<open>
  The calls that an entry point makes into the workflow library, in the order in which
  it makes them: \<^verbatim>\<open>registerLLMAdapter\<close> with a provider id, \<^verbatim>\<open>compileWorkflow\<close> and
  \<^verbatim>\<open>executeWorkflow\<close>. \<^verbatim>\<open>registerOpenSourceAdapters\<close> registers the three adapters.
\<close>

datatype engine_call =
    RegisterLLMAdapter string
  | CompileWorkflow
  | ExecuteWorkflow

definition registerOpenSourceAdapters :: "engine_call list" where
  "registerOpenSourceAdapters =
     [RegisterLLMAdapter ''ollama'', RegisterLLMAdapter ''vllm'', RegisterLLMAdapter ''tgi'']"

section \<open>The workflow definition\<close>

text \<open>
  \<^verbatim>\<open>src/flows/research-to-app-trial.ts\<close>. A prompt is a template literal that spans
  several source lines; it is written as the list of those lines, joined by line feeds.
\<close>

fun template_literal :: "string list \<Rightarrow> string" where
  "template_literal [] = []"
| "template_literal [l] = l"
| "template_literal (l # m # ls) = l @ CHR 10 # template_literal (m # ls)"

record step_config =
  provider :: string
  cfg_model :: string
  prompt :: string
  cfg_responseFormat :: "response_format option"
  cfg_maxTokens :: rat
  cfg_temperature :: rat

record step =
  step_id :: string
  step_type :: string
  config :: step_config
  dependencies :: "string list"

record secret =
  secret_name :: string
  secret_description :: string

record retry_policy =
  maxRetries :: nat
  backoffStrategy :: string

record workflow_policies =
  timeout :: nat
  retryPolicy :: retry_policy

record webhook =
  webhook_type :: string
  webhook_url :: string
  payload_message :: string

record workflow_notifications =
  onSuccess :: "webhook list"
  onFailure :: "webhook list"

record workflow_definition =
  name :: string
  description :: string
  version :: string
  determinismGrade :: string
  steps :: "step list"
  secrets :: "secret list"
  policies :: workflow_policies
  notifications :: workflow_notifications

definition analyze_research_topic_prompt :: string where
  \<open>analyze_research_topic_prompt = template_literal
     [''Analyze this research topic and break it down into actionable development tasks:'',
      ''        '',
      ''        Research Topic: "{{researchTopic}}"'',
      ''        '',
      ''        Provide:'',
      ''        1. Technical complexity assessment (1-10)'',
      ''        2. Key technical challenges'',
      ''        3. Recommended technology stack (open-source only)'',
      ''        4. Development phases with estimated effort'',
      ''        5. Risk assessment and mitigation strategies'',
      ''        '',
      ''        Format as JSON with keys: complexity, challenges, techStack, phases, risks'']\<close>

definition design_architecture_prompt :: string where
  \<open>design_architecture_prompt = template_literal
     [''Design the application architecture based on the research analysis:'',
      ''        '',
      ''        Analysis: "{{analyze-research-topic.output}}"'',
      ''        '',
      ''        Create a detailed architecture plan:'',
      ''        1. System components and their relationships'',
      ''        2. Data flow diagram (text description)'',
      ''        3. API structure and endpoints'',
      ''        4. Database schema design'',
      ''        5. Security considerations'',
      ''        '',
      ''        Format as JSON with keys: components, dataFlow, api, database, security'']\<close>

definition generate_project_structure_prompt :: string where
  \<open>generate_project_structure_prompt = template_literal
     [''Generate the complete project structure and boilerplate code:'',
      ''        '',
      ''        Architecture: "{{design-architecture.output}}"'',
      ''        '',
      ''        Create:'',
      ''        1. Directory structure (tree format)'',
      ''        2. Package.json with open-source dependencies only'',
      ''        3. Configuration files (typescript, eslint, etc.)'',
      ''        4. Docker setup for development'',
      ''        5. CI/CD pipeline using GitHub Actions'',
      ''        '',
      ''        Provide as executable code blocks and configuration files.'']\<close>

definition create_core_components_prompt :: string where
  \<open>create_core_components_prompt = template_literal
     [''Implement the core application components:'',
      ''        '',
      ''        Architecture: "{{design-architecture.output}}"'',
      ''        Project Structure: "{{generate-project-structure.output}}"'',
      ''        '',
      ''        Generate TypeScript code for:'',
      ''        1. Main application entry point'',
      ''        2. Core service classes'',
      ''        3. Data models and interfaces'',
      ''        4. API route handlers'',
      ''        5. Database connection and utilities'',
      ''        '',
      ''        Follow the architecture and use only open-source libraries.'']\<close>

definition setup_testing_prompt :: string where
  \<open>setup_testing_prompt = template_literal
     [''Create comprehensive testing setup:'',
      ''        '',
      ''        Architecture: "{{design-architecture.output}}"'',
      ''        Components: "{{create-core-components.output}}"'',
      ''        '',
      ''        Generate:'',
      ''        1. Unit tests for core functions'',
      ''        2. Integration tests for API endpoints'',
      ''        3. E2E test scenarios'',
      ''        4. Test utilities and mocks'',
      ''        5. Performance test setup'',
      ''        '',
      ''        Use Vitest and Testing Library (open-source).'']\<close>

definition create_documentation_prompt :: string where
  \<open>create_documentation_prompt = template_literal
     [''Generate comprehensive documentation:'',
      ''        '',
      ''        Architecture: "{{design-architecture.output}}"'',
      ''        Implementation: "{{create-core-components.output}}"'',
      ''        '',
      ''        Create:'',
      ''        1. README.md with setup instructions'',
      ''        2. API documentation (OpenAPI specification)'',
      ''        3. Developer onboarding guide'',
      ''        4. Deployment documentation'',
      ''        5. Contributing guidelines'']\<close>

definition setup_deployment_prompt :: string where
  \<open>setup_deployment_prompt = template_literal
     [''Create deployment configuration:'',
      ''        '',
      ''        Project: "{{generate-project-structure.output}}"'',
      ''        Documentation: "{{create-documentation.output}}"'',
      ''        '',
      ''        Generate:'',
      ''        1. Docker Compose for local development'',
      ''        2. Kubernetes deployment manifests'',
      ''        3. Nginx configuration'',
      ''        4. Environment variable templates'',
      ''        5. Health check endpoints'',
      ''        '',
      ''        Focus on self-hosted, open-source solutions.'']\<close>

definition quality_assurance_prompt :: string where
  \<open>quality_assurance_prompt = template_literal
     [''Perform quality assurance review of the generated application:'',
      ''        '',
      ''        Architecture: "{{design-architecture.output}}"'',
      ''        Code: "{{create-core-components.output}}"'',
      ''        Tests: "{{setup-testing.output}}"'',
      ''        Documentation: "{{create-documentation.output}}"'',
      ''        Deployment: "{{setup-deployment.output}}"'',
      ''        '',
      ''        Analyze and report on:'',
      ''        1. Code quality and best practices'',
      ''        2. Security vulnerabilities'',
      ''        3. Performance bottlenecks'',
      ''        4. Documentation completeness'',
      ''        5. Deployment readiness'',
      ''        '',
      ''        Provide specific recommendations and improvements needed.'']\<close>

definition analyze_research_topic :: step where
  "analyze_research_topic =
     \<lparr> step_id = ''analyze-research-topic'',
       step_type = ''ai.generate-text'',
       config =
         \<lparr> provider = ''ollama'',
           cfg_model = ''llama3:8b'',
           prompt = analyze_research_topic_prompt,
           cfg_responseFormat = Some \<lparr> rf_type = ''json_object'' \<rparr>,
           cfg_maxTokens = 2000,
           cfg_temperature = 3 / 10 \<rparr>,
       dependencies = [] \<rparr>"

definition design_architecture :: step where
  "design_architecture =
     \<lparr> step_id = ''design-architecture'',
       step_type = ''ai.generate-text'',
       config =
         \<lparr> provider = ''ollama'',
           cfg_model = ''llama3:8b'',
           prompt = design_architecture_prompt,
           cfg_responseFormat = Some \<lparr> rf_type = ''json_object'' \<rparr>,
           cfg_maxTokens = 3000,
           cfg_temperature = 2 / 10 \<rparr>,
       dependencies = [''analyze-research-topic''] \<rparr>"

definition generate_project_structure :: step where
  "generate_project_structure =
     \<lparr> step_id = ''generate-project-structure'',
       step_type = ''ai.generate-text'',
       config =
         \<lparr> provider = ''ollama'',
           cfg_model = ''codellama'',
           prompt = generate_project_structure_prompt,
           cfg_responseFormat = None,
           cfg_maxTokens = 4000,
           cfg_temperature = 1 / 10 \<rparr>,
       dependencies = [''design-architecture''] \<rparr>"

definition create_core_components :: step where
  "create_core_components =
     \<lparr> step_id = ''create-core-components'',
       step_type = ''ai.generate-text'',
       config =
         \<lparr> provider = ''ollama'',
           cfg_model = ''codellama'',
           prompt = create_core_components_prompt,
           cfg_responseFormat = None,
           cfg_maxTokens = 5000,
           cfg_temperature = 1 / 10 \<rparr>,
       dependencies = [''design-architecture'', ''generate-project-structure''] \<rparr>"

definition setup_testing :: step where
  "setup_testing =
     \<lparr> step_id = ''setup-testing'',
       step_type = ''ai.generate-text'',
       config =
         \<lparr> provider = ''ollama'',
           cfg_model = ''codellama'',
           prompt = setup_testing_prompt,
           cfg_responseFormat = None,
           cfg_maxTokens = 4000,
           cfg_temperature = 1 / 10 \<rparr>,
       dependencies = [''create-core-components''] \<rparr>"

definition create_documentation :: step where
  "create_documentation =
     \<lparr> step_id = ''create-documentation'',
       step_type = ''ai.generate-text'',
       config =
         \<lparr> provider = ''ollama'',
           cfg_model = ''llama3:8b'',
           prompt = create_documentation_prompt,
           cfg_responseFormat = None,
           cfg_maxTokens = 3000,
           cfg_temperature = 2 / 10 \<rparr>,
       dependencies = [''create-core-components''] \<rparr>"

definition setup_deployment :: step where
  "setup_deployment =
     \<lparr> step_id = ''setup-deployment'',
       step_type = ''ai.generate-text'',
       config =
         \<lparr> provider = ''ollama'',
           cfg_model = ''codellama'',
           prompt = setup_deployment_prompt,
           cfg_responseFormat = None,
           cfg_maxTokens = 3000,
           cfg_temperature = 1 / 10 \<rparr>,
       dependencies = [''generate-project-structure'', ''create-documentation''] \<rparr>"

definition quality_assurance :: step where
  "quality_assurance =
     \<lparr> step_id = ''quality-assurance'',
       step_type = ''ai.generate-text'',
       config =
         \<lparr> provider = ''vllm'',
           cfg_model = ''mistralai/Mistral-7B-Instruct-v0.1'',
           prompt = quality_assurance_prompt,
           cfg_responseFormat = None,
           cfg_maxTokens = 2500,
           cfg_temperature = 3 / 10 \<rparr>,
       dependencies = [''create-core-components'', ''setup-testing'', ''create-documentation'', ''setup-deployment''] \<rparr>"

definition researchToAppFlow :: workflow_definition where
  "researchToAppFlow =
     \<lparr> name = ''research-to-app-trial'',
       description = ''Transform research concept into functional application prototype'',
       version = ''1.0.0'',
       determinismGrade = ''pure'',
       steps =
         [analyze_research_topic, design_architecture, generate_project_structure,
          create_core_components, setup_testing, create_documentation, setup_deployment,
          quality_assurance],
       secrets =
         [\<lparr> secret_name = ''DATABASE_URL'',
            secret_description = ''Database connection string'' \<rparr>,
          \<lparr> secret_name = ''JWT_SECRET'', secret_description = ''JWT signing secret'' \<rparr>],
       policies =
         \<lparr> timeout = 3600,
           retryPolicy = \<lparr> maxRetries = 2, backoffStrategy = ''exponential'' \<rparr> \<rparr>,
       notifications =
         \<lparr> onSuccess =
             [\<lparr> webhook_type = ''webhook'',
                webhook_url = ''https://hooks.slack.com/your-webhook-url'',
                payload_message = ''Research to app trial completed successfully!'' \<rparr>],
           onFailure =
             [\<lparr> webhook_type = ''webhook'',
                webhook_url = ''https://hooks.slack.com/your-webhook-url'',
                payload_message = ''Research to app trial failed!'' \<rparr>] \<rparr> \<rparr>"

subsection \<open>Placeholders and the dependency graph\<close>

text \<open>
  Modelled from the spec: the template resolver belongs to the workflow library, which is
  not among the sources. The placeholders of a prompt follow the grammar
  \<^verbatim>\<open>placeholder := {{ identifier (. output)? }}\<close>: they are the texts between an
  opening \<^verbatim>\<open>{{\<close> and the next \<^verbatim>\<open>}}\<close>, from left to right. The first argument is
  \<open>None\<close> outside a placeholder and holds the characters read so far, last first, inside
  one.
\<close>

fun scan_placeholders :: "string option \<Rightarrow> string \<Rightarrow> string list" where
  "scan_placeholders None (a # b # cs) =
     (if a = CHR ''{'' \<and> b = CHR ''{'' then scan_placeholders (Some []) cs
      else scan_placeholders None (b # cs))"
| "scan_placeholders (Some acc) (a # b # cs) =
     (if a = CHR ''}'' \<and> b = CHR ''}'' then rev acc # scan_placeholders None cs
      else scan_placeholders (Some (a # acc)) (b # cs))"
| "scan_placeholders st cs = []"

text \<open>
  A placeholder \<^verbatim>\<open>stepId.output\<close> refers to the step \<^verbatim>\<open>stepId\<close>; any other
  placeholder is a top-level input variable.
\<close>

definition step_reference :: "string \<Rightarrow> string option" where
  "step_reference p =
     (if 7 \<le> length p \<and> drop (length p - 7) p = ''.output''
      then Some (take (length p - 7) p) else None)"

definition referenced_steps :: "string \<Rightarrow> string list" where
  "referenced_steps s = List.map_filter step_reference (scan_placeholders None s)"

text \<open>Every step output that the prompt of a step names is a declared dependency.\<close>

definition references_declared :: "step \<Rightarrow> bool" where
  "references_declared s =
     list_all (\<lambda>r. r \<in> set (dependencies s)) (referenced_steps (prompt (config s)))"

text \<open>The edges of the dependency graph: from a step to each of its dependencies.\<close>

definition depends_on :: "workflow_definition \<Rightarrow> (string \<times> string) set" where
  "depends_on w = {(step_id s, d) | s d. s \<in> set (steps w) \<and> d \<in> set (dependencies s)}"

definition step_ids :: "workflow_definition \<Rightarrow> string list" where
  "step_ids w = map step_id (steps w)"

definition no_dangling :: "workflow_definition \<Rightarrow> bool" where
  "no_dangling w =
     list_all (\<lambda>s. list_all (\<lambda>d. d \<in> set (step_ids w)) (dependencies s)) (steps w)"

section \<open>Entry points\<close>

text \<open>
  \<^verbatim>\<open>src/index.ts\<close>: \<^verbatim>\<open>main\<close> registers, compiles and, when the compilation returned,
  executes.
\<close>

definition main :: "bool \<Rightarrow> engine_call list" where
  "main compiled =
     registerOpenSourceAdapters @ [CompileWorkflow] @ (if compiled then [ExecuteWorkflow] else [])"

text \<open>
  The Express server and \<^verbatim>\<open>api/execute.ts\<close> register and compile when the module is
  loaded; each request that reaches the engine executes the compiled workflow. A request
  is its method and its body.
\<close>

record request =
  req_method :: string
  req_body :: jsval

text \<open>The route \<^verbatim>\<open>POST /api/workflows/execute\<close> of the server.\<close>

definition execute_route :: "jsval \<Rightarrow> engine_call list" where
  "execute_route reqbody =
     (case get_prop reqbody ''researchTopic'' of
        Inl e \<Rightarrow> []
      | Inr researchTopic \<Rightarrow> if \<not> truthy researchTopic then [] else [ExecuteWorkflow])"

definition server :: "bool \<Rightarrow> jsval list \<Rightarrow> engine_call list" where
  "server compiled bodies =
     registerOpenSourceAdapters @ [CompileWorkflow]
     @ (if compiled then concat (map execute_route bodies) else [])"

definition handler :: "request \<Rightarrow> engine_call list" where
  "handler req =
     (if req_method req = ''OPTIONS'' then []
      else if req_method req \<noteq> ''POST'' then []
      else (case get_prop (req_body req) ''researchTopic'' of
              Inl e \<Rightarrow> []
            | Inr researchTopic \<Rightarrow> if \<not> truthy researchTopic then [] else [ExecuteWorkflow]))"

definition vercel :: "bool \<Rightarrow> request list \<Rightarrow> engine_call list" where
  "vercel compiled reqs =
     registerOpenSourceAdapters @ [CompileWorkflow]
     @ (if compiled then concat (map handler reqs) else [])"

text \<open>
  Walking a sequence of calls with the providers registered so far: at every compilation
  and execution, each of the providers \<open>needed\<close> has been registered.
\<close>

fun registered_before_use :: "string list \<Rightarrow> string list \<Rightarrow> engine_call list \<Rightarrow> bool" where
  "registered_before_use needed reg [] = True"
| "registered_before_use needed reg (RegisterLLMAdapter p # cs) =
     registered_before_use needed (p # reg) cs"
| "registered_before_use needed reg (c # cs) =
     (list_all (\<lambda>p. p \<in> set reg) needed \<and> registered_before_use needed reg cs)"

section \<open>Properties of the requests\<close>

lemma ollama_body:
  "body (ollama_request options) =
     JObj ([(''model'', JStr (model options)),
            (''prompt'', JStr (first_content options)),
            (''options'', JObj
               [(''temperature'', JNum (num_or (temperature options) (7 / 10))),
                (''num_predict'', JNum (num_or (maxTokens options) 2048))]),
            (''stream'', JBool False)]
           @ (if wants_json options then [(''format'', JStr ''json'')] else []))"
  by (simp add: ollama_request_def)

lemma vllm_body:
  "body (vllm_request options) =
     JObj ([(''model'', JStr (model options)),
            (''prompt'', JStr (first_content options)),
            (''max_tokens'', JNum (num_or (maxTokens options) 2048)),
            (''temperature'', JNum (num_or (temperature options) (7 / 10))),
            (''echo'', JBool False)]
           @ (if wants_json options then [(''guided_json'', JObj [])] else []))"
  by (simp add: vllm_request_def)

lemma tgi_body:
  "body (tgi_request options) =
     JObj [(''inputs'', JStr (first_content options)),
           (''parameters'', JObj
              ([(''max_new_tokens'', JNum (num_or (maxTokens options) 2048)),
                (''temperature'', JNum (num_or (temperature options) (7 / 10))),
                (''return_full_text'', JBool False)]
               @ (if wants_json options
                  then [(''response_format'', JObj [(''type'', JStr ''json_object'')])]
                  else [])))]"
  by (simp add: tgi_request_def)

lemma wants_json_iff:
  "wants_json options = (\<exists>f. responseFormat options = Some f \<and> rf_type f = ''json_object'')"
  by (simp add: wants_json_def split: option.splits)

lemma first_content_head:
  "messages options = m # ms \<Longrightarrow> content m = Some s \<Longrightarrow> first_content options = s"
  by (simp add: first_content_def str_or_def)

lemma first_content_none:
  "messages options = [] \<or> (\<exists>m ms. messages options = m # ms \<and> content m = None) \<Longrightarrow>
   first_content options = []"
  by (auto simp add: first_content_def str_or_def)

lemma truthy_not_nullish: "truthy v \<Longrightarrow> \<not> nullish v"
  by (cases v) simp_all

section \<open>Doubles that are integers\<close>

text \<open>
  An integer of absolute value at most \<open>2\<^sup>5\<^sup>3\<close> is a double: rounding leaves it as it
  is.
\<close>

lemma round_half_even_of_int: "round_half_even (of_int n) = n"
  by (simp add: round_half_even_def)

lemma floor_log2_of_int:
  assumes "0 < a"
  shows "floor_log2 (of_int a) = bitlen a - 1"
  using assms by (simp add: floor_log2_def)

lemma binary64_exact:
  assumes r: "r \<noteq> 0"
    and q: "\<bar>r\<bar> / (2 powi (max (floor_log2 \<bar>r\<bar>) (- 1022) - 52)) = of_int n"
    and small: "\<bar>r\<bar> < 2 ^ 1024"
  shows "binary64 r = Finite r"
proof -
  define A where "A = \<bar>r\<bar>"
  define q where "q = (2::rat) powi (max (floor_log2 A) (- 1022) - 52)"
  have "q \<noteq> 0"
    by (simp add: q_def)
  moreover have "A / q = of_int n"
    using assms(2) by (simp add: A_def q_def)
  ultimately have m: "of_int (round_half_even (A / q)) * q = A"
    by (simp add: round_half_even_of_int field_simps)
  have A: "A \<noteq> 0" "\<not> 2 ^ 1024 \<le> A" "(if r < 0 then - A else A) = r"
    using r small by (simp_all add: A_def)
  have "binary64 r =
      (if 2 ^ 1024 \<le> of_int (round_half_even (A / q)) * q
       then (if r < 0 then NegInf else PosInf)
       else if of_int (round_half_even (A / q)) * q = 0
         then (if r < 0 then NegZero else Finite 0)
         else Finite (if r < 0 then - (of_int (round_half_even (A / q)) * q)
                      else of_int (round_half_even (A / q)) * q))"
    unfolding binary64_def Let_def A_def [symmetric] q_def [symmetric]
    using r by (simp only: if_False)
  also have "\<dots> = Finite r"
    unfolding m using A by (simp only: if_False)
  finally show ?thesis .
qed

lemma binary64_int:
  assumes "\<bar>i\<bar> \<le> 2 ^ 53"
  shows "binary64 (of_int i) = Finite (of_int i)"
proof (cases "i = 0")
  case True
  then show ?thesis by (simp add: binary64_def)
next
  case False
  define a where "a = \<bar>i\<bar>"
  have a: "0 < a" "a \<le> 2 ^ 53"
    using False assms by (simp_all add: a_def)
  define k where "k = nat (bitlen a - 1)"
  from bitlen_bounds [OF a(1)] have bounds: "2 ^ k \<le> a" "a < 2 ^ nat (bitlen a)"
    by (simp_all add: k_def)
  have "1 \<le> bitlen a"
    using a(1) bitlen_eq_zero_iff [of a] bitlen_nonneg [of a] by linarith
  then have k: "bitlen a - 1 = int k"
    by (simp add: k_def)
  have "(2::int) ^ k \<le> 2 ^ 53"
    using bounds(1) a(2) by linarith
  then have k53: "k \<le> 53"
    using power_le_imp_le_exp [of "2::int" k 53] by simp
  have abs_r: "\<bar>of_int i :: rat\<bar> = of_int a"
    by (simp add: a_def)
  have e: "max (floor_log2 \<bar>of_int i :: rat\<bar>) (- 1022) = int k"
    by (simp add: abs_r floor_log2_of_int a(1) k)
  have "\<exists>n. \<bar>of_int i :: rat\<bar> / (2 powi (int k - 52)) = of_int n"
  proof (cases "k = 53")
    case True
    with bounds(1) a(2) have "a = 2 ^ 53" by simp
    then have "\<bar>of_int i :: rat\<bar> / (2 powi (int k - 52)) = of_int (2 ^ 52)"
      by (simp add: abs_r True)
    then show ?thesis ..
  next
    case False
    with k53 have le: "k \<le> 52" by simp
    then have "int k - 52 = - int (52 - k)"
      by simp
    then have "(2::rat) powi (int k - 52) = inverse (2 ^ (52 - k))"
      by (simp only: power_int_minus power_int_of_nat)
    then have "\<bar>of_int i :: rat\<bar> / (2 powi (int k - 52)) = of_int (a * 2 ^ (52 - k))"
      by (simp add: abs_r divide_inverse)
    then show ?thesis ..
  qed
  then obtain n where q:
    "\<bar>of_int i :: rat\<bar> / (2 powi (max (floor_log2 \<bar>of_int i :: rat\<bar>) (- 1022) - 52)) = of_int n"
    unfolding e by blast
  have nz: "of_int i \<noteq> (0::rat)"
    using False by simp
  have small: "\<bar>of_int i :: rat\<bar> < 2 ^ 1024"
  proof -
    have "a < 2 ^ 1024"
      using a(2) by (rule order_le_less_trans) simp
    then have "(of_int a :: rat) < of_int (2 ^ 1024)"
      by (simp only: of_int_less_iff)
    then show ?thesis by (simp add: abs_r)
  qed
  from nz q small show ?thesis
    by (rule binary64_exact)
qed


lemma binary64_numeral:
  "numeral k \<le> (9007199254740992::int) \<Longrightarrow> binary64 (numeral k) = Finite (numeral k)"
  using binary64_int [of "numeral k"] by simp

lemma binary64_zero: "binary64 0 = Finite 0"
  by (simp add: binary64_def)

lemma binary64_one: "binary64 1 = Finite 1"
  using binary64_int [of 1] by simp

lemmas binary64_simps = binary64_numeral binary64_zero binary64_one



section \<open>The paths through the adapters\<close>

text \<open>
  What \<^verbatim>\<open>fetch\<close> settled with decides the path: a rejection, a status outside 200 to
  299, a body that does not parse, the body \<^verbatim>\<open>null\<close>, or any other parsed body.
\<close>

lemma fetch_cases:
  obtains (rejected) t where "outcome = Rejected t"
  | (not_ok) r where "outcome = Resolved r" "\<not> ok r"
  | (no_json) r t where "outcome = Resolved r" "ok r" "json r = Inl t"
  | (null) r data where "outcome = Resolved r" "ok r" "json r = Inr data" "nullish data"
  | (parsed) r data where "outcome = Resolved r" "ok r" "json r = Inr data" "\<not> nullish data"
proof (cases outcome)
  case (Rejected t)
  then show ?thesis by (rule rejected)
next
  case (Resolved r)
  show ?thesis
  proof (cases "ok r")
    case False
    with Resolved show ?thesis by (rule not_ok)
  next
    case True
    show ?thesis
    proof (cases "json r")
      case (Inl t)
      with Resolved True show ?thesis by (rule no_json)
    next
      case (Inr data)
      show ?thesis
      proof (cases "nullish data")
        case nullish: True
        from Resolved \<open>ok r\<close> Inr nullish show ?thesis by (rule null)
      next
        case other: False
        from Resolved \<open>ok r\<close> Inr other show ?thesis by (rule parsed)
      qed
    qed
  qed
qed

subsection \<open>Ollama\<close>

lemma ollama_rejected:
  "fetch (ollama_request options) = Rejected t \<Longrightarrow>
   ollamaAdapter ns options fetch = Inl (ErrorObj (''Ollama adapter failed: '' @ error_message t))"
  by (simp add: ollamaAdapter_def ollama_try_def catch_rethrow_def)

lemma ollama_not_ok:
  "fetch (ollama_request options) = Resolved r \<Longrightarrow> \<not> ok r \<Longrightarrow>
   ollamaAdapter ns options fetch =
     Inl (ErrorObj (''Ollama adapter failed: '' @ ''Ollama API error: '' @ show_nat (status r)
                    @ '' '' @ statusText r))"
  by (simp add: ollamaAdapter_def ollama_try_def catch_rethrow_def error_message_def)

lemma ollama_no_json:
  "fetch (ollama_request options) = Resolved r \<Longrightarrow> ok r \<Longrightarrow> json r = Inl t \<Longrightarrow>
   ollamaAdapter ns options fetch = Inl (ErrorObj (''Ollama adapter failed: '' @ error_message t))"
  by (simp add: ollamaAdapter_def ollama_try_def catch_rethrow_def and_then_def)

lemma ollama_null:
  "fetch (ollama_request options) = Resolved r \<Longrightarrow> ok r \<Longrightarrow> json r = Inr data \<Longrightarrow>
   nullish data \<Longrightarrow>
   ollamaAdapter ns options fetch =
     Inl (ErrorObj (''Ollama adapter failed: '' @ error_message (cannot_read data ''response'')))"
  by (simp add: ollamaAdapter_def ollama_try_def catch_rethrow_def and_then_def get_prop_def)

lemma ollama_parsed:
  "fetch (ollama_request options) = Resolved r \<Longrightarrow> ok r \<Longrightarrow> json r = Inr data \<Longrightarrow>
   \<not> nullish data \<Longrightarrow>
   js_add ns (js_or (own_prop data ''prompt_eval_count'') (JNum 0))
             (js_or (own_prop data ''eval_count'') (JNum 0)) = Inr tot \<Longrightarrow>
   ollamaAdapter ns options fetch =
     Inr (JObj
       [(''content'', own_prop data ''response''),
        (''usage'', JObj
           [(''prompt_tokens'', js_or (own_prop data ''prompt_eval_count'') (JNum 0)),
            (''completion_tokens'', js_or (own_prop data ''eval_count'') (JNum 0)),
            (''total_tokens'', tot)])])"
  by (simp add: ollamaAdapter_def ollama_try_def catch_rethrow_def and_then_def get_prop_def)

lemma ollama_sum_throws:
  "fetch (ollama_request options) = Resolved r \<Longrightarrow> ok r \<Longrightarrow> json r = Inr data \<Longrightarrow>
   \<not> nullish data \<Longrightarrow>
   js_add ns (js_or (own_prop data ''prompt_eval_count'') (JNum 0))
             (js_or (own_prop data ''eval_count'') (JNum 0)) = Inl t \<Longrightarrow>
   ollamaAdapter ns options fetch = Inl (ErrorObj (''Ollama adapter failed: '' @ error_message t))"
  by (simp add: ollamaAdapter_def ollama_try_def catch_rethrow_def and_then_def get_prop_def)

lemma ollama_failure_wrapped:
  "ollamaAdapter ns options fetch = Inl e \<Longrightarrow> \<exists>m. e = ErrorObj (''Ollama adapter failed: '' @ m)"
  by (auto simp add: ollamaAdapter_def catch_rethrow_def split: sum.splits)

subsection \<open>vLLM\<close>

lemma vllm_rejected:
  "fetch (vllm_request options) = Rejected t \<Longrightarrow>
   vllmAdapter options fetch = Inl (ErrorObj (''vLLM adapter failed: '' @ error_message t))"
  by (simp add: vllmAdapter_def vllm_try_def catch_rethrow_def)

lemma vllm_not_ok:
  "fetch (vllm_request options) = Resolved r \<Longrightarrow> \<not> ok r \<Longrightarrow>
   vllmAdapter options fetch =
     Inl (ErrorObj (''vLLM adapter failed: '' @ ''vLLM API error: '' @ show_nat (status r)
                    @ '' '' @ statusText r))"
  by (simp add: vllmAdapter_def vllm_try_def catch_rethrow_def error_message_def)

lemma vllm_no_json:
  "fetch (vllm_request options) = Resolved r \<Longrightarrow> ok r \<Longrightarrow> json r = Inl t \<Longrightarrow>
   vllmAdapter options fetch = Inl (ErrorObj (''vLLM adapter failed: '' @ error_message t))"
  by (simp add: vllmAdapter_def vllm_try_def catch_rethrow_def and_then_def)

lemma vllm_null:
  "fetch (vllm_request options) = Resolved r \<Longrightarrow> ok r \<Longrightarrow> json r = Inr data \<Longrightarrow>
   nullish data \<Longrightarrow>
   vllmAdapter options fetch =
     Inl (ErrorObj (''vLLM adapter failed: '' @ error_message (cannot_read data ''choices'')))"
  by (simp add: vllmAdapter_def vllm_try_def catch_rethrow_def and_then_def get_prop_def)

lemma vllm_no_choice:
  "fetch (vllm_request options) = Resolved r \<Longrightarrow> ok r \<Longrightarrow> json r = Inr data \<Longrightarrow>
   \<not> nullish data \<Longrightarrow> \<not> truthy (opt_index0 (own_prop data ''choices'')) \<Longrightarrow>
   vllmAdapter options fetch =
     Inl (ErrorObj ''vLLM adapter failed: No completion returned from vLLM'')"
  by (simp add: vllmAdapter_def vllm_try_def catch_rethrow_def and_then_def get_prop_def
      error_message_def)

lemma vllm_parsed:
  "fetch (vllm_request options) = Resolved r \<Longrightarrow> ok r \<Longrightarrow> json r = Inr data \<Longrightarrow>
   \<not> nullish data \<Longrightarrow> truthy (opt_index0 (own_prop data ''choices'')) \<Longrightarrow>
   vllmAdapter options fetch =
     Inr (JObj
       [(''content'', own_prop (opt_index0 (own_prop data ''choices'')) ''text''),
        (''usage'', JObj
           [(''prompt_tokens'',
               js_or (opt_prop (own_prop data ''usage'') ''prompt_tokens'') (JNum 0)),
            (''completion_tokens'',
               js_or (opt_prop (own_prop data ''usage'') ''completion_tokens'') (JNum 0)),
            (''total_tokens'',
               js_or (opt_prop (own_prop data ''usage'') ''total_tokens'') (JNum 0))])])"
  by (simp add: vllmAdapter_def vllm_try_def catch_rethrow_def and_then_def get_prop_def
      truthy_not_nullish)

lemma vllm_failure_wrapped:
  "vllmAdapter options fetch = Inl e \<Longrightarrow> \<exists>m. e = ErrorObj (''vLLM adapter failed: '' @ m)"
  by (auto simp add: vllmAdapter_def catch_rethrow_def split: sum.splits)

subsection \<open>Text Generation Inference\<close>

lemma tgi_rejected:
  "fetch (tgi_request options) = Rejected t \<Longrightarrow>
   tgiAdapter ns options fetch = Inl (ErrorObj (''TGI adapter failed: '' @ error_message t))"
  by (simp add: tgiAdapter_def tgi_try_def catch_rethrow_def)

lemma tgi_not_ok:
  "fetch (tgi_request options) = Resolved r \<Longrightarrow> \<not> ok r \<Longrightarrow>
   tgiAdapter ns options fetch =
     Inl (ErrorObj (''TGI adapter failed: '' @ ''TGI API error: '' @ show_nat (status r)
                    @ '' '' @ statusText r))"
  by (simp add: tgiAdapter_def tgi_try_def catch_rethrow_def error_message_def)

lemma tgi_no_json:
  "fetch (tgi_request options) = Resolved r \<Longrightarrow> ok r \<Longrightarrow> json r = Inl t \<Longrightarrow>
   tgiAdapter ns options fetch = Inl (ErrorObj (''TGI adapter failed: '' @ error_message t))"
  by (simp add: tgiAdapter_def tgi_try_def catch_rethrow_def and_then_def)

lemma tgi_null:
  "fetch (tgi_request options) = Resolved r \<Longrightarrow> ok r \<Longrightarrow> json r = Inr data \<Longrightarrow>
   nullish data \<Longrightarrow>
   tgiAdapter ns options fetch =
     Inl (ErrorObj (''TGI adapter failed: ''
                    @ error_message (cannot_read data ''generated_text'')))"
  by (simp add: tgiAdapter_def tgi_try_def catch_rethrow_def and_then_def get_prop_def)

lemma tgi_parsed:
  "fetch (tgi_request options) = Resolved r \<Longrightarrow> ok r \<Longrightarrow> json r = Inr data \<Longrightarrow>
   \<not> nullish data \<Longrightarrow>
   js_add ns (js_or (opt_prop (own_prop data ''details'') ''prompt_tokens'') (JNum 0))
             (js_or (opt_prop (own_prop data ''details'') ''generated_tokens'') (JNum 0))
     = Inr tot \<Longrightarrow>
   tgiAdapter ns options fetch =
     Inr (JObj
       [(''content'',
           if truthy (own_prop data ''generated_text'') then own_prop data ''generated_text''
           else opt_prop (own_index0 data) ''generated_text''),
        (''usage'', JObj
           [(''prompt_tokens'',
               js_or (opt_prop (own_prop data ''details'') ''prompt_tokens'') (JNum 0)),
            (''completion_tokens'',
               js_or (opt_prop (own_prop data ''details'') ''generated_tokens'') (JNum 0)),
            (''total_tokens'', tot)])])"
  by (simp add: tgiAdapter_def tgi_try_def catch_rethrow_def and_then_def get_prop_def
      get_index0_def)

lemma tgi_sum_throws:
  "fetch (tgi_request options) = Resolved r \<Longrightarrow> ok r \<Longrightarrow> json r = Inr data \<Longrightarrow>
   \<not> nullish data \<Longrightarrow>
   js_add ns (js_or (opt_prop (own_prop data ''details'') ''prompt_tokens'') (JNum 0))
             (js_or (opt_prop (own_prop data ''details'') ''generated_tokens'') (JNum 0))
     = Inl t \<Longrightarrow>
   tgiAdapter ns options fetch = Inl (ErrorObj (''TGI adapter failed: '' @ error_message t))"
  by (simp add: tgiAdapter_def tgi_try_def catch_rethrow_def and_then_def get_prop_def
      get_index0_def)

lemma tgi_failure_wrapped:
  "tgiAdapter ns options fetch = Inl e \<Longrightarrow> \<exists>m. e = ErrorObj (''TGI adapter failed: '' @ m)"
  by (auto simp add: tgiAdapter_def catch_rethrow_def split: sum.splits)

text \<open>
  On an accepted response with a parsed body other than \<^verbatim>\<open>null\<close>, the Ollama and the TGI
  adapter return unless adding the two counters throws.
\<close>

lemma ollama_settled:
  "fetch (ollama_request options) = Resolved r \<Longrightarrow> ok r \<Longrightarrow> json r = Inr data \<Longrightarrow>
   \<not> nullish data \<Longrightarrow>
   ollamaAdapter ns options fetch =
     (case js_add ns (js_or (own_prop data ''prompt_eval_count'') (JNum 0))
                     (js_or (own_prop data ''eval_count'') (JNum 0)) of
        Inl t \<Rightarrow> Inl (ErrorObj (''Ollama adapter failed: '' @ error_message t))
      | Inr tot \<Rightarrow>
          Inr (JObj
            [(''content'', own_prop data ''response''),
             (''usage'', JObj
                [(''prompt_tokens'', js_or (own_prop data ''prompt_eval_count'') (JNum 0)),
                 (''completion_tokens'', js_or (own_prop data ''eval_count'') (JNum 0)),
                 (''total_tokens'', tot)])]))"
  by (simp add: ollama_parsed ollama_sum_throws split: sum.splits)

lemma tgi_settled:
  "fetch (tgi_request options) = Resolved r \<Longrightarrow> ok r \<Longrightarrow> json r = Inr data \<Longrightarrow>
   \<not> nullish data \<Longrightarrow>
   tgiAdapter ns options fetch =
     (case js_add ns (js_or (opt_prop (own_prop data ''details'') ''prompt_tokens'') (JNum 0))
                     (js_or (opt_prop (own_prop data ''details'') ''generated_tokens'') (JNum 0)) of
        Inl t \<Rightarrow> Inl (ErrorObj (''TGI adapter failed: '' @ error_message t))
      | Inr tot \<Rightarrow>
          Inr (JObj
            [(''content'',
                if truthy (own_prop data ''generated_text'') then own_prop data ''generated_text''
                else opt_prop (own_index0 data) ''generated_text''),
             (''usage'', JObj
                [(''prompt_tokens'',
                    js_or (opt_prop (own_prop data ''details'') ''prompt_tokens'') (JNum 0)),
                 (''completion_tokens'',
                    js_or (opt_prop (own_prop data ''details'') ''generated_tokens'') (JNum 0)),
                 (''total_tokens'', tot)])]))"
  by (simp add: tgi_parsed tgi_sum_throws split: sum.splits)



lemma ollama_result_form:
  "ollamaAdapter ns options fetch = Inr v \<Longrightarrow>
   \<exists>c p q t. v = JObj [(''content'', c),
     (''usage'', JObj [(''prompt_tokens'', p), (''completion_tokens'', q), (''total_tokens'', t)])]"
  by (cases "fetch (ollama_request options)" rule: fetch_cases)
     (auto simp add: ollama_rejected ollama_not_ok ollama_no_json ollama_null ollama_settled
       split: sum.splits)

lemma vllm_result_form:
  "vllmAdapter options fetch = Inr v \<Longrightarrow>
   \<exists>c p q t. v = JObj [(''content'', c),
     (''usage'', JObj [(''prompt_tokens'', p), (''completion_tokens'', q), (''total_tokens'', t)])]"
proof (cases "fetch (vllm_request options)" rule: fetch_cases)
  case (parsed r data)
  assume v: "vllmAdapter options fetch = Inr v"
  show ?thesis
  proof (cases "truthy (opt_index0 (own_prop data ''choices''))")
    case True
    with parsed v show ?thesis by (auto simp add: vllm_parsed)
  next
    case False
    with parsed v show ?thesis by (simp add: vllm_no_choice)
  qed
qed (simp_all add: vllm_rejected vllm_not_ok vllm_no_json vllm_null)

lemma tgi_result_form:
  "tgiAdapter ns options fetch = Inr v \<Longrightarrow>
   \<exists>c p q t. v = JObj [(''content'', c),
     (''usage'', JObj [(''prompt_tokens'', p), (''completion_tokens'', q), (''total_tokens'', t)])]"
  by (cases "fetch (tgi_request options)" rule: fetch_cases)
     (auto simp add: tgi_rejected tgi_not_ok tgi_no_json tgi_null tgi_settled
       split: sum.splits)


section \<open>Properties of the adapters\<close>

text \<open>
  C6. The Ollama adapter posts to \<^verbatim>\<open>/api/generate\<close> a body whose \<^verbatim>\<open>prompt\<close> is the
  content of the first message, whose \<^verbatim>\<open>temperature\<close> and \<^verbatim>\<open>num_predict\<close> are
  properties of the nested object \<^verbatim>\<open>options\<close> and not of the body itself, and which has
  the property \<^verbatim>\<open>format\<close>, with the value \<^verbatim>\<open>json\<close>, exactly when the response format
  asked for is \<^verbatim>\<open>json_object\<close>. On every response whose status is outside 200 to 299
  the adapter throws.
\<close>

theorem ollama_generate_request:
  "url (ollama_request options)
     = str_or (baseUrl options) ''http://localhost:11434'' @ ''/api/generate''
   \<and> map_of (props (body (ollama_request options))) ''prompt''
       = Some (JStr (first_content options))
   \<and> (\<forall>m ms s. messages options = m # ms \<and> content m = Some s \<longrightarrow> first_content options = s)
   \<and> map_of (props (body (ollama_request options))) ''options''
       = Some (JObj [(''temperature'', JNum (num_or (temperature options) (7 / 10))),
                     (''num_predict'', JNum (num_or (maxTokens options) 2048))])
   \<and> map_of (props (body (ollama_request options))) ''temperature'' = None
   \<and> map_of (props (body (ollama_request options))) ''num_predict'' = None
   \<and> map_of (props (body (ollama_request options))) ''format''
       = (if \<exists>f. responseFormat options = Some f \<and> rf_type f = ''json_object''
          then Some (JStr ''json'') else None)
   \<and> (\<forall>r. fetch (ollama_request options) = Resolved r \<and> (status r < 200 \<or> 299 < status r) \<longrightarrow>
         ollamaAdapter ns options fetch
           = Inl (ErrorObj (''Ollama adapter failed: Ollama API error: '' @ show_nat (status r)
                            @ '' '' @ statusText r)))"
proof -
  have "ollamaAdapter ns options fetch
          = Inl (ErrorObj (''Ollama adapter failed: Ollama API error: '' @ show_nat (status r)
                           @ '' '' @ statusText r))"
    if "fetch (ollama_request options) = Resolved r" "status r < 200 \<or> 299 < status r" for r
  proof -
    from that(2) have "\<not> ok r" by (auto simp add: ok_def)
    with that(1) show ?thesis by (simp add: ollama_not_ok)
  qed
  moreover have "url (ollama_request options)
     = str_or (baseUrl options) ''http://localhost:11434'' @ ''/api/generate''"
    by (simp add: ollama_request_def)
  moreover have "first_content options = s" if "messages options = m # ms" "content m = Some s"
    for m ms s
    using that by (rule first_content_head)
  ultimately show ?thesis
    by (simp add: ollama_body wants_json_iff)
qed

theorem ollama_generate_request_witness:
  "messages \<lparr> model = ''llama3:8b'', messages = [\<lparr> content = Some ''hello'' \<rparr>],
              baseUrl = None, apiKey = None, temperature = Some (3 / 10),
              maxTokens = Some 2000,
              responseFormat = Some \<lparr> rf_type = ''json_object'' \<rparr> \<rparr>
     = [\<lparr> content = Some ''hello'' \<rparr>]
   \<and> first_content \<lparr> model = ''llama3:8b'', messages = [\<lparr> content = Some ''hello'' \<rparr>],
              baseUrl = None, apiKey = None, temperature = Some (3 / 10),
              maxTokens = Some 2000,
              responseFormat = Some \<lparr> rf_type = ''json_object'' \<rparr> \<rparr> = ''hello''
   \<and> status \<lparr> status = 500, statusText = ''Internal Server Error'',
               json = Inl (ErrorObj ''Unexpected end of JSON input'') \<rparr> = 500
   \<and> ollamaAdapter print_integer
        \<lparr> model = ''llama3:8b'', messages = [\<lparr> content = Some ''hello'' \<rparr>],
          baseUrl = None, apiKey = None, temperature = Some (3 / 10),
          maxTokens = Some 2000,
          responseFormat = Some \<lparr> rf_type = ''json_object'' \<rparr> \<rparr>
        (answering (Resolved \<lparr> status = 500, statusText = ''Internal Server Error'',
                               json = Inl (ErrorObj ''Unexpected end of JSON input'') \<rparr>))
       = Inl (ErrorObj ''Ollama adapter failed: Ollama API error: 500 Internal Server Error'')"
  using ollama_generate_request
    [of "\<lparr> model = ''llama3:8b'', messages = [\<lparr> content = Some ''hello'' \<rparr>],
           baseUrl = None, apiKey = None, temperature = Some (3 / 10),
           maxTokens = Some 2000,
           responseFormat = Some \<lparr> rf_type = ''json_object'' \<rparr> \<rparr>"
        "answering (Resolved \<lparr> status = 500, statusText = ''Internal Server Error'',
                                json = Inl (ErrorObj ''Unexpected end of JSON input'') \<rparr>)"
        print_integer]
  by (simp add: answering_def show_nat.simps)


text \<open>
  C10. When the message list is empty or the first message has no content, each of the
  three adapters sends the empty string as \<^verbatim>\<open>prompt\<close> (Ollama, vLLM) or \<^verbatim>\<open>inputs\<close>
  (TGI). What the adapter then does is decided by the answer to that request alone: it
  is what any other call does whose request is answered alike. In particular the adapter
  returns when the backend answers with a status from 200 to 299 and a parsed body other
  than \<^verbatim>\<open>null\<close> whose counters can be added (Ollama, TGI) or which has a first choice
  (vLLM).
\<close>

theorem no_message_content_empty_prompt:
  assumes "messages options = [] \<or> (\<exists>m ms. messages options = m # ms \<and> content m = None)"
  shows "map_of (props (body (ollama_request options))) ''prompt'' = Some (JStr [])
   \<and> map_of (props (body (vllm_request options))) ''prompt'' = Some (JStr [])
   \<and> map_of (props (body (tgi_request options))) ''inputs'' = Some (JStr [])
   \<and> (\<forall>r data tot. fetch (ollama_request options) = Resolved r \<and> ok r \<and> json r = Inr data
         \<and> \<not> nullish data
         \<and> js_add ns (js_or (own_prop data ''prompt_eval_count'') (JNum 0))
                     (js_or (own_prop data ''eval_count'') (JNum 0)) = Inr tot \<longrightarrow>
         (\<exists>v. ollamaAdapter ns options fetch = Inr v))
   \<and> (\<forall>r data. fetch (vllm_request options) = Resolved r \<and> ok r \<and> json r = Inr data
         \<and> \<not> nullish data \<and> truthy (opt_index0 (own_prop data ''choices'')) \<longrightarrow>
         (\<exists>v. vllmAdapter options fetch = Inr v))
   \<and> (\<forall>r data tot. fetch (tgi_request options) = Resolved r \<and> ok r \<and> json r = Inr data
         \<and> \<not> nullish data
         \<and> js_add ns (js_or (opt_prop (own_prop data ''details'') ''prompt_tokens'') (JNum 0))
                     (js_or (opt_prop (own_prop data ''details'') ''generated_tokens'')
                        (JNum 0)) = Inr tot \<longrightarrow>
         (\<exists>v. tgiAdapter ns options fetch = Inr v))
   \<and> (\<forall>options' fetch'. fetch' (ollama_request options') = fetch (ollama_request options) \<longrightarrow>
         ollamaAdapter ns options' fetch' = ollamaAdapter ns options fetch)
   \<and> (\<forall>options' fetch'. fetch' (vllm_request options') = fetch (vllm_request options) \<longrightarrow>
         vllmAdapter options' fetch' = vllmAdapter options fetch)
   \<and> (\<forall>options' fetch'. fetch' (tgi_request options') = fetch (tgi_request options) \<longrightarrow>
         tgiAdapter ns options' fetch' = tgiAdapter ns options fetch)"
proof -
  from assms have "first_content options = []"
    by (rule first_content_none)
  then have requests:
    "map_of (props (body (ollama_request options))) ''prompt'' = Some (JStr [])"
    "map_of (props (body (vllm_request options))) ''prompt'' = Some (JStr [])"
    "map_of (props (body (tgi_request options))) ''inputs'' = Some (JStr [])"
    by (simp_all add: ollama_body vllm_body tgi_body)
  have returns:
    "\<forall>r data tot. fetch (ollama_request options) = Resolved r \<and> ok r \<and> json r = Inr data
         \<and> \<not> nullish data
         \<and> js_add ns (js_or (own_prop data ''prompt_eval_count'') (JNum 0))
                     (js_or (own_prop data ''eval_count'') (JNum 0)) = Inr tot \<longrightarrow>
         (\<exists>v. ollamaAdapter ns options fetch = Inr v)"
    "\<forall>r data. fetch (vllm_request options) = Resolved r \<and> ok r \<and> json r = Inr data
         \<and> \<not> nullish data \<and> truthy (opt_index0 (own_prop data ''choices'')) \<longrightarrow>
         (\<exists>v. vllmAdapter options fetch = Inr v)"
    "\<forall>r data tot. fetch (tgi_request options) = Resolved r \<and> ok r \<and> json r = Inr data
         \<and> \<not> nullish data
         \<and> js_add ns (js_or (opt_prop (own_prop data ''details'') ''prompt_tokens'') (JNum 0))
                     (js_or (opt_prop (own_prop data ''details'') ''generated_tokens'')
                        (JNum 0)) = Inr tot \<longrightarrow>
         (\<exists>v. tgiAdapter ns options fetch = Inr v)"
    by (simp_all add: ollama_parsed vllm_parsed tgi_parsed)
  have alike:
    "\<forall>options' fetch'. fetch' (ollama_request options') = fetch (ollama_request options) \<longrightarrow>
         ollamaAdapter ns options' fetch' = ollamaAdapter ns options fetch"
    "\<forall>options' fetch'. fetch' (vllm_request options') = fetch (vllm_request options) \<longrightarrow>
         vllmAdapter options' fetch' = vllmAdapter options fetch"
    "\<forall>options' fetch'. fetch' (tgi_request options') = fetch (tgi_request options) \<longrightarrow>
         tgiAdapter ns options' fetch' = tgiAdapter ns options fetch"
    by (simp_all add: ollamaAdapter_def vllmAdapter_def tgiAdapter_def)
  show ?thesis
    by (intro conjI) (rule requests returns alike)+
qed

theorem no_message_content_empty_prompt_witness:
  "messages \<lparr> model = ''codellama'', messages = [], baseUrl = None, apiKey = None,
              temperature = None, maxTokens = None, responseFormat = None \<rparr> = []
   \<and> body (ollama_request
        \<lparr> model = ''codellama'', messages = [], baseUrl = None, apiKey = None,
          temperature = None, maxTokens = None, responseFormat = None \<rparr>)
       = JObj [(''model'', JStr ''codellama''), (''prompt'', JStr []),
               (''options'', JObj [(''temperature'', JNum (7 / 10)),
                                   (''num_predict'', JNum 2048)]),
               (''stream'', JBool False)]
   \<and> map_of (props (body (tgi_request
        \<lparr> model = ''codellama'', messages = [], baseUrl = None, apiKey = None,
          temperature = None, maxTokens = None, responseFormat = None \<rparr>))) ''inputs''
       = Some (JStr [])
   \<and> ollamaAdapter print_integer
        \<lparr> model = ''codellama'', messages = [], baseUrl = None, apiKey = None,
          temperature = None, maxTokens = None, responseFormat = None \<rparr>
        (answering (Resolved \<lparr> status = 200, statusText = ''OK'',
                               json = Inr (JObj [(''response'', JStr ''ok'')]) \<rparr>))
       = Inr (JObj [(''content'', JStr ''ok''),
                    (''usage'', JObj [(''prompt_tokens'', JNum 0),
                                      (''completion_tokens'', JNum 0),
                                      (''total_tokens'', JNum 0)])])
   \<and> ollamaAdapter print_integer
        \<lparr> model = ''codellama'', messages = [\<lparr> content = Some ''hello'' \<rparr>], baseUrl = None,
          apiKey = None, temperature = None, maxTokens = None, responseFormat = None \<rparr>
        (answering (Resolved \<lparr> status = 200, statusText = ''OK'',
                               json = Inr (JObj [(''response'', JStr ''ok'')]) \<rparr>))
       = ollamaAdapter print_integer
        \<lparr> model = ''codellama'', messages = [], baseUrl = None, apiKey = None,
          temperature = None, maxTokens = None, responseFormat = None \<rparr>
        (answering (Resolved \<lparr> status = 200, statusText = ''OK'',
                               json = Inr (JObj [(''response'', JStr ''ok'')]) \<rparr>))"
  using no_message_content_empty_prompt
    [of "\<lparr> model = ''codellama'', messages = [], baseUrl = None, apiKey = None,
           temperature = None, maxTokens = None, responseFormat = None \<rparr>"
        "answering (Resolved \<lparr> status = 200, statusText = ''OK'',
                                json = Inr (JObj [(''response'', JStr ''ok'')]) \<rparr>)"
        print_integer]
  by (simp add: ollama_body first_content_def num_or_def wants_json_def answering_def
      ollama_settled ok_def js_or_def js_add_def binary64_simps)




text \<open>
  C3, as the code has it. Whenever one of the three adapters returns, the result is an
  object with exactly the properties \<^verbatim>\<open>content\<close> and \<^verbatim>\<open>usage\<close>, and \<^verbatim>\<open>usage\<close> is an
  object with exactly the properties \<^verbatim>\<open>prompt_tokens\<close>, \<^verbatim>\<open>completion_tokens\<close> and
  \<^verbatim>\<open>total_tokens\<close>.
\<close>

theorem adapter_result_shape:
  "(\<forall>v. ollamaAdapter ns options fetch = Inr v \<longrightarrow>
       map fst (props v) = [''content'', ''usage'']
       \<and> map fst (props (own_prop v ''usage''))
           = [''prompt_tokens'', ''completion_tokens'', ''total_tokens''])
   \<and> (\<forall>v. vllmAdapter options fetch = Inr v \<longrightarrow>
       map fst (props v) = [''content'', ''usage'']
       \<and> map fst (props (own_prop v ''usage''))
           = [''prompt_tokens'', ''completion_tokens'', ''total_tokens''])
   \<and> (\<forall>v. tgiAdapter ns options fetch = Inr v \<longrightarrow>
       map fst (props v) = [''content'', ''usage'']
       \<and> map fst (props (own_prop v ''usage''))
           = [''prompt_tokens'', ''completion_tokens'', ''total_tokens''])"
proof (intro conjI allI impI)
  fix v
  assume "ollamaAdapter ns options fetch = Inr v"
  then obtain c p q t where "v = JObj [(''content'', c),
     (''usage'', JObj [(''prompt_tokens'', p), (''completion_tokens'', q), (''total_tokens'', t)])]"
    using ollama_result_form by blast
  then show "map fst (props v) = [''content'', ''usage'']"
    and "map fst (props (own_prop v ''usage''))
           = [''prompt_tokens'', ''completion_tokens'', ''total_tokens'']"
    by simp_all
next
  fix v
  assume "vllmAdapter options fetch = Inr v"
  then obtain c p q t where "v = JObj [(''content'', c),
     (''usage'', JObj [(''prompt_tokens'', p), (''completion_tokens'', q), (''total_tokens'', t)])]"
    using vllm_result_form by blast
  then show "map fst (props v) = [''content'', ''usage'']"
    and "map fst (props (own_prop v ''usage''))
           = [''prompt_tokens'', ''completion_tokens'', ''total_tokens'']"
    by simp_all
next
  fix v
  assume "tgiAdapter ns options fetch = Inr v"
  then obtain c p q t where "v = JObj [(''content'', c),
     (''usage'', JObj [(''prompt_tokens'', p), (''completion_tokens'', q), (''total_tokens'', t)])]"
    using tgi_result_form by blast
  then show "map fst (props v) = [''content'', ''usage'']"
    and "map fst (props (own_prop v ''usage''))
           = [''prompt_tokens'', ''completion_tokens'', ''total_tokens'']"
    by simp_all
qed

theorem adapter_result_shape_witness:
  "vllmAdapter
      \<lparr> model = ''mistralai/Mistral-7B-Instruct-v0.1'',
        messages = [\<lparr> content = Some ''hello'' \<rparr>], baseUrl = None,
        apiKey = Some ''key'', temperature = None, maxTokens = None, responseFormat = None \<rparr>
      (answering (Resolved \<lparr> status = 200, statusText = ''OK'',
         json = Inr (JObj [(''choices'', JArr [JObj [(''text'', JStr ''hi'')]]),
                           (''usage'', JObj [(''prompt_tokens'', JNum 3),
                                             (''completion_tokens'', JNum 4),
                                             (''total_tokens'', JNum 7)])]) \<rparr>))
     = Inr (JObj [(''content'', JStr ''hi''),
                  (''usage'', JObj [(''prompt_tokens'', JNum 3),
                                    (''completion_tokens'', JNum 4),
                                    (''total_tokens'', JNum 7)])])
   \<and> map fst (props (own_prop (JObj [(''content'', JStr ''hi''),
                  (''usage'', JObj [(''prompt_tokens'', JNum 3),
                                    (''completion_tokens'', JNum 4),
                                    (''total_tokens'', JNum 7)])]) ''usage''))
       = [''prompt_tokens'', ''completion_tokens'', ''total_tokens'']"
  using adapter_result_shape
    [of print_integer
        "\<lparr> model = ''mistralai/Mistral-7B-Instruct-v0.1'',
           messages = [\<lparr> content = Some ''hello'' \<rparr>], baseUrl = None,
           apiKey = Some ''key'', temperature = None, maxTokens = None,
           responseFormat = None \<rparr>"
        "answering (Resolved \<lparr> status = 200, statusText = ''OK'',
           json = Inr (JObj [(''choices'', JArr [JObj [(''text'', JStr ''hi'')]]),
                             (''usage'', JObj [(''prompt_tokens'', JNum 3),
                                               (''completion_tokens'', JNum 4),
                                               (''total_tokens'', JNum 7)])]) \<rparr>)"]
  by (simp add: answering_def vllm_parsed ok_def js_or_def opt_prop_def opt_index0_def
      binary64_simps)

text \<open>
  C3, as the specification states it, fails: on a well-formed answer of each backend the
  usage object of the result has no property \<^verbatim>\<open>promptTokens\<close>, \<^verbatim>\<open>completionTokens\<close>
  or \<^verbatim>\<open>totalTokens\<close>.
\<close>

theorem adapter_result_shape_counterexample:
  "ollamaAdapter print_integer
      \<lparr> model = ''llama3:8b'', messages = [\<lparr> content = Some ''hello'' \<rparr>], baseUrl = None,
        apiKey = None, temperature = None, maxTokens = None, responseFormat = None \<rparr>
      (answering (Resolved \<lparr> status = 200, statusText = ''OK'',
         json = Inr (JObj [(''response'', JStr ''hi''), (''prompt_eval_count'', JNum 3),
                           (''eval_count'', JNum 4)]) \<rparr>))
     = Inr (JObj [(''content'', JStr ''hi''),
                  (''usage'', JObj [(''prompt_tokens'', JNum 3),
                                    (''completion_tokens'', JNum 4),
                                    (''total_tokens'', JNum 7)])])
   \<and> map_of (props (JObj [(''prompt_tokens'', JNum 3), (''completion_tokens'', JNum 4),
                           (''total_tokens'', JNum 7)])) ''promptTokens'' = None
   \<and> map_of (props (JObj [(''prompt_tokens'', JNum 3), (''completion_tokens'', JNum 4),
                           (''total_tokens'', JNum 7)])) ''completionTokens'' = None
   \<and> map_of (props (JObj [(''prompt_tokens'', JNum 3), (''completion_tokens'', JNum 4),
                           (''total_tokens'', JNum 7)])) ''totalTokens'' = None
   \<and> vllmAdapter
      \<lparr> model = ''llama3:8b'', messages = [\<lparr> content = Some ''hello'' \<rparr>], baseUrl = None,
        apiKey = None, temperature = None, maxTokens = None, responseFormat = None \<rparr>
      (answering (Resolved \<lparr> status = 200, statusText = ''OK'',
         json = Inr (JObj [(''choices'', JArr [JObj [(''text'', JStr ''hi'')]]),
                           (''usage'', JObj [(''prompt_tokens'', JNum 3),
                                             (''completion_tokens'', JNum 4),
                                             (''total_tokens'', JNum 7)])]) \<rparr>))
     = Inr (JObj [(''content'', JStr ''hi''),
                  (''usage'', JObj [(''prompt_tokens'', JNum 3),
                                    (''completion_tokens'', JNum 4),
                                    (''total_tokens'', JNum 7)])])
   \<and> tgiAdapter print_integer
      \<lparr> model = ''llama3:8b'', messages = [\<lparr> content = Some ''hello'' \<rparr>], baseUrl = None,
        apiKey = None, temperature = None, maxTokens = None, responseFormat = None \<rparr>
      (answering (Resolved \<lparr> status = 200, statusText = ''OK'',
         json = Inr (JObj [(''generated_text'', JStr ''hi''),
                           (''details'', JObj [(''prompt_tokens'', JNum 3),
                                               (''generated_tokens'', JNum 4)])]) \<rparr>))
     = Inr (JObj [(''content'', JStr ''hi''),
                  (''usage'', JObj [(''prompt_tokens'', JNum 3),
                                    (''completion_tokens'', JNum 4),
                                    (''total_tokens'', JNum 7)])])"
  by (simp add: answering_def ollama_settled vllm_parsed tgi_settled ok_def js_or_def js_add_def
      opt_prop_def opt_index0_def binary64_simps)

text \<open>
  C2. The TGI adapter does not fail on a response of neither shape: on the parsed body
  \<^verbatim>\<open>{}\<close>, which carries \<^verbatim>\<open>generated_text\<close> neither itself nor in a first element, it
  returns a result whose \<^verbatim>\<open>content\<close> is \<^verbatim>\<open>undefined\<close>. Both shapes of the
  specification are read.
\<close>

theorem tgi_neither_shape_returns:
  "tgiAdapter print_integer
      \<lparr> model = ''meta-llama/Llama-3-8B-Instruct'',
        messages = [\<lparr> content = Some ''hello'' \<rparr>], baseUrl = None, apiKey = Some ''key'',
        temperature = None, maxTokens = None, responseFormat = None \<rparr>
      (answering (Resolved \<lparr> status = 200, statusText = ''OK'', json = Inr (JObj []) \<rparr>))
     = Inr (JObj [(''content'', JUndefined),
                  (''usage'', JObj [(''prompt_tokens'', JNum 0),
                                    (''completion_tokens'', JNum 0),
                                    (''total_tokens'', JNum 0)])])
   \<and> tgiAdapter print_integer
      \<lparr> model = ''meta-llama/Llama-3-8B-Instruct'',
        messages = [\<lparr> content = Some ''hello'' \<rparr>], baseUrl = None, apiKey = Some ''key'',
        temperature = None, maxTokens = None, responseFormat = None \<rparr>
      (answering (Resolved \<lparr> status = 200, statusText = ''OK'',
         json = Inr (JObj [(''generated_text'', JStr ''hi'')]) \<rparr>))
     = Inr (JObj [(''content'', JStr ''hi''),
                  (''usage'', JObj [(''prompt_tokens'', JNum 0),
                                    (''completion_tokens'', JNum 0),
                                    (''total_tokens'', JNum 0)])])
   \<and> tgiAdapter print_integer
      \<lparr> model = ''meta-llama/Llama-3-8B-Instruct'',
        messages = [\<lparr> content = Some ''hello'' \<rparr>], baseUrl = None, apiKey = Some ''key'',
        temperature = None, maxTokens = None, responseFormat = None \<rparr>
      (answering (Resolved \<lparr> status = 200, statusText = ''OK'',
         json = Inr (JArr [JObj [(''generated_text'', JStr ''hi'')]]) \<rparr>))
     = Inr (JObj [(''content'', JStr ''hi''),
                  (''usage'', JObj [(''prompt_tokens'', JNum 0),
                                    (''completion_tokens'', JNum 0),
                                    (''total_tokens'', JNum 0)])])"
  by (simp add: answering_def tgi_settled ok_def js_or_def js_add_def opt_prop_def
      binary64_simps)


text \<open>
  C4, as the code has it. The vLLM adapter posts to \<^verbatim>\<open>/v1/completions\<close> a body with
  \<^verbatim>\<open>model\<close>, \<^verbatim>\<open>prompt\<close>, \<^verbatim>\<open>max_tokens\<close> and \<^verbatim>\<open>temperature\<close>, under an
  \<^verbatim>\<open>Authorization\<close> header that is \<^verbatim>\<open>Bearer\<close> followed by the API key; the body has the
  property \<^verbatim>\<open>guided_json\<close> exactly when the response format asked for is
  \<^verbatim>\<open>json_object\<close>. What the adapter does is decided by the answer to that request. When
  the parsed body of an accepted response is not \<^verbatim>\<open>null\<close> and its \<^verbatim>\<open>choices\<close> are
  absent, \<^verbatim>\<open>null\<close>, an empty array, or start with a falsy element, the adapter throws
  the error \<^verbatim>\<open>No completion returned from vLLM\<close>; when the body is \<^verbatim>\<open>null\<close> it throws
  the \<^verbatim>\<open>TypeError\<close> of reading \<^verbatim>\<open>choices\<close>; in every other case it returns the text of
  the first choice and the usage counters.
\<close>

theorem vllm_completions_request:
  "url (vllm_request options)
     = str_or (baseUrl options) ''http://localhost:8000'' @ ''/v1/completions''
   \<and> http_method (vllm_request options) = ''POST''
   \<and> map_of (headers (vllm_request options)) ''Authorization''
       = Some (''Bearer '' @ interpolate (apiKey options))
   \<and> map_of (props (body (vllm_request options))) ''model'' = Some (JStr (model options))
   \<and> map_of (props (body (vllm_request options))) ''prompt''
       = Some (JStr (first_content options))
   \<and> map_of (props (body (vllm_request options))) ''max_tokens''
       = Some (JNum (num_or (maxTokens options) 2048))
   \<and> map_of (props (body (vllm_request options))) ''temperature''
       = Some (JNum (num_or (temperature options) (7 / 10)))
   \<and> map_of (props (body (vllm_request options))) ''guided_json''
       = (if \<exists>f. responseFormat options = Some f \<and> rf_type f = ''json_object''
          then Some (JObj []) else None)
   \<and> (\<forall>options' fetch'. fetch' (vllm_request options') = fetch (vllm_request options) \<longrightarrow>
         vllmAdapter options' fetch' = vllmAdapter options fetch)
   \<and> (\<forall>r data. fetch (vllm_request options) = Resolved r \<and> ok r \<and> json r = Inr data
         \<and> \<not> nullish data
         \<and> (own_prop data ''choices'' = JUndefined \<or> own_prop data ''choices'' = JNull
            \<or> own_prop data ''choices'' = JArr []
            \<or> \<not> truthy (opt_index0 (own_prop data ''choices''))) \<longrightarrow>
         vllmAdapter options fetch
           = Inl (ErrorObj ''vLLM adapter failed: No completion returned from vLLM''))
   \<and> (\<forall>r data. fetch (vllm_request options) = Resolved r \<and> ok r \<and> json r = Inr data
         \<and> nullish data \<longrightarrow>
         vllmAdapter options fetch
           = Inl (ErrorObj (''vLLM adapter failed: Cannot read properties of ''
                            @ (if data = JNull then ''null'' else ''undefined'')
                            @ '' (reading '' @ [CHR 39] @ ''choices'' @ [CHR 39] @ '')'')))
   \<and> (\<forall>r data. fetch (vllm_request options) = Resolved r \<and> ok r \<and> json r = Inr data
         \<and> \<not> nullish data \<and> truthy (opt_index0 (own_prop data ''choices'')) \<longrightarrow>
         vllmAdapter options fetch
           = Inr (JObj
               [(''content'', own_prop (opt_index0 (own_prop data ''choices'')) ''text''),
                (''usage'', JObj
                   [(''prompt_tokens'',
                       js_or (opt_prop (own_prop data ''usage'') ''prompt_tokens'') (JNum 0)),
                    (''completion_tokens'',
                       js_or (opt_prop (own_prop data ''usage'') ''completion_tokens'')
                         (JNum 0)),
                    (''total_tokens'',
                       js_or (opt_prop (own_prop data ''usage'') ''total_tokens'')
                         (JNum 0))])]))"
proof -
  have request:
    "url (vllm_request options)
       = str_or (baseUrl options) ''http://localhost:8000'' @ ''/v1/completions''"
    "http_method (vllm_request options) = ''POST''"
    "map_of (headers (vllm_request options)) ''Authorization''
       = Some (''Bearer '' @ interpolate (apiKey options))"
    by (simp_all add: vllm_request_def)
  have sent: "map_of (props (body (vllm_request options))) ''model'' = Some (JStr (model options))"
    "map_of (props (body (vllm_request options))) ''prompt''
       = Some (JStr (first_content options))"
    "map_of (props (body (vllm_request options))) ''max_tokens''
       = Some (JNum (num_or (maxTokens options) 2048))"
    "map_of (props (body (vllm_request options))) ''temperature''
       = Some (JNum (num_or (temperature options) (7 / 10)))"
    "map_of (props (body (vllm_request options))) ''guided_json''
       = (if \<exists>f. responseFormat options = Some f \<and> rf_type f = ''json_object''
          then Some (JObj []) else None)"
    by (simp_all add: vllm_body wants_json_iff)
  have alike:
    "\<forall>options' fetch'. fetch' (vllm_request options') = fetch (vllm_request options) \<longrightarrow>
         vllmAdapter options' fetch' = vllmAdapter options fetch"
    by (simp add: vllmAdapter_def)
  have no_choice:
    "\<forall>r data. fetch (vllm_request options) = Resolved r \<and> ok r \<and> json r = Inr data
         \<and> \<not> nullish data
         \<and> (own_prop data ''choices'' = JUndefined \<or> own_prop data ''choices'' = JNull
            \<or> own_prop data ''choices'' = JArr []
            \<or> \<not> truthy (opt_index0 (own_prop data ''choices''))) \<longrightarrow>
         vllmAdapter options fetch
           = Inl (ErrorObj ''vLLM adapter failed: No completion returned from vLLM'')"
  proof (intro allI impI, elim conjE)
    fix r data
    assume a: "fetch (vllm_request options) = Resolved r" "ok r" "json r = Inr data"
      "\<not> nullish data"
      and "own_prop data ''choices'' = JUndefined \<or> own_prop data ''choices'' = JNull
            \<or> own_prop data ''choices'' = JArr []
            \<or> \<not> truthy (opt_index0 (own_prop data ''choices''))"
    then have "\<not> truthy (opt_index0 (own_prop data ''choices''))"
      by (auto simp add: opt_index0_def)
    with a show "vllmAdapter options fetch
           = Inl (ErrorObj ''vLLM adapter failed: No completion returned from vLLM'')"
      by (rule vllm_no_choice)
  qed
  have null_body:
    "\<forall>r data. fetch (vllm_request options) = Resolved r \<and> ok r \<and> json r = Inr data
         \<and> nullish data \<longrightarrow>
         vllmAdapter options fetch
           = Inl (ErrorObj (''vLLM adapter failed: Cannot read properties of ''
                            @ (if data = JNull then ''null'' else ''undefined'')
                            @ '' (reading '' @ [CHR 39] @ ''choices'' @ [CHR 39] @ '')''))"
    by (simp add: vllm_null cannot_read_def error_message_def)
  have returns:
    "\<forall>r data. fetch (vllm_request options) = Resolved r \<and> ok r \<and> json r = Inr data
         \<and> \<not> nullish data \<and> truthy (opt_index0 (own_prop data ''choices'')) \<longrightarrow>
         vllmAdapter options fetch
           = Inr (JObj
               [(''content'', own_prop (opt_index0 (own_prop data ''choices'')) ''text''),
                (''usage'', JObj
                   [(''prompt_tokens'',
                       js_or (opt_prop (own_prop data ''usage'') ''prompt_tokens'') (JNum 0)),
                    (''completion_tokens'',
                       js_or (opt_prop (own_prop data ''usage'') ''completion_tokens'')
                         (JNum 0)),
                    (''total_tokens'',
                       js_or (opt_prop (own_prop data ''usage'') ''total_tokens'')
                         (JNum 0))])])"
    by (simp add: vllm_parsed)
  show ?thesis
    by (intro conjI) (rule request sent alike no_choice null_body returns)+
qed

theorem vllm_completions_request_witness:
  "map_of (headers (vllm_request
      \<lparr> model = ''mistralai/Mistral-7B-Instruct-v0.1'',
        messages = [\<lparr> content = Some ''hello'' \<rparr>], baseUrl = None,
        apiKey = Some ''key'', temperature = None, maxTokens = None,
        responseFormat = Some \<lparr> rf_type = ''json_object'' \<rparr> \<rparr>)) ''Authorization''
     = Some ''Bearer key''
   \<and> map_of (props (body (vllm_request
      \<lparr> model = ''mistralai/Mistral-7B-Instruct-v0.1'',
        messages = [\<lparr> content = Some ''hello'' \<rparr>], baseUrl = None,
        apiKey = Some ''key'', temperature = None, maxTokens = None,
        responseFormat = Some \<lparr> rf_type = ''json_object'' \<rparr> \<rparr>))) ''guided_json''
     = Some (JObj [])
   \<and> ok \<lparr> status = 200, statusText = ''OK'', json = Inr (JObj [(''choices'', JArr [])]) \<rparr>
   \<and> own_prop (JObj [(''choices'', JArr [])]) ''choices'' = JArr []
   \<and> vllmAdapter
      \<lparr> model = ''mistralai/Mistral-7B-Instruct-v0.1'',
        messages = [\<lparr> content = Some ''hello'' \<rparr>], baseUrl = None,
        apiKey = Some ''key'', temperature = None, maxTokens = None,
        responseFormat = Some \<lparr> rf_type = ''json_object'' \<rparr> \<rparr>
      (answering (Resolved \<lparr> status = 200, statusText = ''OK'',
                             json = Inr (JObj [(''choices'', JArr [])]) \<rparr>))
     = Inl (ErrorObj ''vLLM adapter failed: No completion returned from vLLM'')"
  using vllm_completions_request
    [of "\<lparr> model = ''mistralai/Mistral-7B-Instruct-v0.1'',
           messages = [\<lparr> content = Some ''hello'' \<rparr>], baseUrl = None,
           apiKey = Some ''key'', temperature = None, maxTokens = None,
           responseFormat = Some \<lparr> rf_type = ''json_object'' \<rparr> \<rparr>"
        "answering (Resolved \<lparr> status = 200, statusText = ''OK'',
                                json = Inr (JObj [(''choices'', JArr [])]) \<rparr>)"]
  by (simp add: answering_def ok_def interpolate_def)

text \<open>
  C4, as the specification states it, fails: on the accepted response whose parsed body is
  \<^verbatim>\<open>null\<close>, which has no choice list, the adapter throws the \<^verbatim>\<open>TypeError\<close> of reading
  \<^verbatim>\<open>choices\<close> and not the error \<^verbatim>\<open>No completion returned from vLLM\<close>.
\<close>

theorem vllm_completions_request_counterexample:
  "vllmAdapter
      \<lparr> model = ''mistralai/Mistral-7B-Instruct-v0.1'',
        messages = [\<lparr> content = Some ''hello'' \<rparr>], baseUrl = None,
        apiKey = Some ''key'', temperature = None, maxTokens = None, responseFormat = None \<rparr>
      (answering (Resolved \<lparr> status = 200, statusText = ''OK'', json = Inr JNull \<rparr>))
     = Inl (ErrorObj (''vLLM adapter failed: Cannot read properties of null (reading ''
                      @ [CHR 39] @ ''choices'' @ [CHR 39] @ '')''))
   \<and> vllmAdapter
      \<lparr> model = ''mistralai/Mistral-7B-Instruct-v0.1'',
        messages = [\<lparr> content = Some ''hello'' \<rparr>], baseUrl = None,
        apiKey = Some ''key'', temperature = None, maxTokens = None, responseFormat = None \<rparr>
      (answering (Resolved \<lparr> status = 200, statusText = ''OK'', json = Inr JNull \<rparr>))
     \<noteq> Inl (ErrorObj ''vLLM adapter failed: No completion returned from vLLM'')"
  by (simp add: answering_def vllm_null ok_def cannot_read_def error_message_def)

text \<open>
  C8. Every failure of an adapter is an \<^verbatim>\<open>Error\<close> whose message starts with the name
  of the adapter, \<^verbatim>\<open>Ollama adapter failed: \<close>, \<^verbatim>\<open>vLLM adapter failed: \<close> or
  \<^verbatim>\<open>TGI adapter failed: \<close>, and goes on with the cause: the message of the error that
  \<^verbatim>\<open>fetch\<close> or \<^verbatim>\<open>response.json()\<close> rejected with, or, for a status outside 200 to
  299, the status and its text. What \<^verbatim>\<open>fetch\<close> rejected with is never what the
  adapter throws.
\<close>

theorem adapter_failures_wrapped:
  "(\<forall>e. ollamaAdapter ns options fetch = Inl e \<longrightarrow>
        (\<exists>m. e = ErrorObj (''Ollama adapter failed: '' @ m)))
   \<and> (\<forall>t. fetch (ollama_request options) = Rejected t \<longrightarrow>
        ollamaAdapter ns options fetch
          = Inl (ErrorObj (''Ollama adapter failed: '' @ error_message t))
        \<and> ollamaAdapter ns options fetch \<noteq> Inl t)
   \<and> (\<forall>r. fetch (ollama_request options) = Resolved r \<and> (status r < 200 \<or> 299 < status r) \<longrightarrow>
        ollamaAdapter ns options fetch
          = Inl (ErrorObj (''Ollama adapter failed: Ollama API error: '' @ show_nat (status r)
                           @ '' '' @ statusText r)))
   \<and> (\<forall>r t. fetch (ollama_request options) = Resolved r \<and> ok r \<and> json r = Inl t \<longrightarrow>
        ollamaAdapter ns options fetch
          = Inl (ErrorObj (''Ollama adapter failed: '' @ error_message t)))
   \<and> (\<forall>e. vllmAdapter options fetch = Inl e \<longrightarrow>
        (\<exists>m. e = ErrorObj (''vLLM adapter failed: '' @ m)))
   \<and> (\<forall>t. fetch (vllm_request options) = Rejected t \<longrightarrow>
        vllmAdapter options fetch = Inl (ErrorObj (''vLLM adapter failed: '' @ error_message t))
        \<and> vllmAdapter options fetch \<noteq> Inl t)
   \<and> (\<forall>r. fetch (vllm_request options) = Resolved r \<and> (status r < 200 \<or> 299 < status r) \<longrightarrow>
        vllmAdapter options fetch
          = Inl (ErrorObj (''vLLM adapter failed: vLLM API error: '' @ show_nat (status r)
                           @ '' '' @ statusText r)))
   \<and> (\<forall>r t. fetch (vllm_request options) = Resolved r \<and> ok r \<and> json r = Inl t \<longrightarrow>
        vllmAdapter options fetch = Inl (ErrorObj (''vLLM adapter failed: '' @ error_message t)))
   \<and> (\<forall>e. tgiAdapter ns options fetch = Inl e \<longrightarrow>
        (\<exists>m. e = ErrorObj (''TGI adapter failed: '' @ m)))
   \<and> (\<forall>t. fetch (tgi_request options) = Rejected t \<longrightarrow>
        tgiAdapter ns options fetch = Inl (ErrorObj (''TGI adapter failed: '' @ error_message t))
        \<and> tgiAdapter ns options fetch \<noteq> Inl t)
   \<and> (\<forall>r. fetch (tgi_request options) = Resolved r \<and> (status r < 200 \<or> 299 < status r) \<longrightarrow>
        tgiAdapter ns options fetch
          = Inl (ErrorObj (''TGI adapter failed: TGI API error: '' @ show_nat (status r)
                           @ '' '' @ statusText r)))
   \<and> (\<forall>r t. fetch (tgi_request options) = Resolved r \<and> ok r \<and> json r = Inl t \<longrightarrow>
        tgiAdapter ns options fetch = Inl (ErrorObj (''TGI adapter failed: '' @ error_message t)))
   \<and> (\<forall>m. error_message (ErrorObj m) = m)"
proof -
  have not_ok: "\<not> ok r" if "status r < 200 \<or> 299 < status r" for r
    using that by (auto simp add: ok_def)
  have ollama1: "\<forall>e. ollamaAdapter ns options fetch = Inl e \<longrightarrow>
        (\<exists>m. e = ErrorObj (''Ollama adapter failed: '' @ m))"
    using ollama_failure_wrapped by blast
  have ollama2: "\<forall>t. fetch (ollama_request options) = Rejected t \<longrightarrow>
        ollamaAdapter ns options fetch
          = Inl (ErrorObj (''Ollama adapter failed: '' @ error_message t))
        \<and> ollamaAdapter ns options fetch \<noteq> Inl t"
  proof (intro allI impI conjI)
    fix t
    assume rejected: "fetch (ollama_request options) = Rejected t"
    then show wrapped: "ollamaAdapter ns options fetch
          = Inl (ErrorObj (''Ollama adapter failed: '' @ error_message t))"
      by (rule ollama_rejected)
    have "ErrorObj (''Ollama adapter failed: '' @ error_message t) \<noteq> t"
      by (cases t) (simp_all add: error_message_def)
    with wrapped show "ollamaAdapter ns options fetch \<noteq> Inl t"
      by simp
  qed
  have ollama3: "\<forall>r. fetch (ollama_request options) = Resolved r \<and> (status r < 200 \<or> 299 < status r) \<longrightarrow>
        ollamaAdapter ns options fetch
          = Inl (ErrorObj (''Ollama adapter failed: Ollama API error: '' @ show_nat (status r)
                           @ '' '' @ statusText r))"
    using ollama_not_ok [of fetch options] not_ok by simp
  have ollama4: "\<forall>r t. fetch (ollama_request options) = Resolved r \<and> ok r \<and> json r = Inl t \<longrightarrow>
        ollamaAdapter ns options fetch
          = Inl (ErrorObj (''Ollama adapter failed: '' @ error_message t))"
    using ollama_no_json [of fetch options] by blast
  have vllm1: "\<forall>e. vllmAdapter options fetch = Inl e \<longrightarrow>
        (\<exists>m. e = ErrorObj (''vLLM adapter failed: '' @ m))"
    using vllm_failure_wrapped by blast
  have vllm2: "\<forall>t. fetch (vllm_request options) = Rejected t \<longrightarrow>
        vllmAdapter options fetch
          = Inl (ErrorObj (''vLLM adapter failed: '' @ error_message t))
        \<and> vllmAdapter options fetch \<noteq> Inl t"
  proof (intro allI impI conjI)
    fix t
    assume rejected: "fetch (vllm_request options) = Rejected t"
    then show wrapped: "vllmAdapter options fetch
          = Inl (ErrorObj (''vLLM adapter failed: '' @ error_message t))"
      by (rule vllm_rejected)
    have "ErrorObj (''vLLM adapter failed: '' @ error_message t) \<noteq> t"
      by (cases t) (simp_all add: error_message_def)
    with wrapped show "vllmAdapter options fetch \<noteq> Inl t"
      by simp
  qed
  have vllm3: "\<forall>r. fetch (vllm_request options) = Resolved r \<and> (status r < 200 \<or> 299 < status r) \<longrightarrow>
        vllmAdapter options fetch
          = Inl (ErrorObj (''vLLM adapter failed: vLLM API error: '' @ show_nat (status r)
                           @ '' '' @ statusText r))"
    using vllm_not_ok [of fetch options] not_ok by simp
  have vllm4: "\<forall>r t. fetch (vllm_request options) = Resolved r \<and> ok r \<and> json r = Inl t \<longrightarrow>
        vllmAdapter options fetch
          = Inl (ErrorObj (''vLLM adapter failed: '' @ error_message t))"
    using vllm_no_json [of fetch options] by blast
  have tgi1: "\<forall>e. tgiAdapter ns options fetch = Inl e \<longrightarrow>
        (\<exists>m. e = ErrorObj (''TGI adapter failed: '' @ m))"
    using tgi_failure_wrapped by blast
  have tgi2: "\<forall>t. fetch (tgi_request options) = Rejected t \<longrightarrow>
        tgiAdapter ns options fetch
          = Inl (ErrorObj (''TGI adapter failed: '' @ error_message t))
        \<and> tgiAdapter ns options fetch \<noteq> Inl t"
  proof (intro allI impI conjI)
    fix t
    assume rejected: "fetch (tgi_request options) = Rejected t"
    then show wrapped: "tgiAdapter ns options fetch
          = Inl (ErrorObj (''TGI adapter failed: '' @ error_message t))"
      by (rule tgi_rejected)
    have "ErrorObj (''TGI adapter failed: '' @ error_message t) \<noteq> t"
      by (cases t) (simp_all add: error_message_def)
    with wrapped show "tgiAdapter ns options fetch \<noteq> Inl t"
      by simp
  qed
  have tgi3: "\<forall>r. fetch (tgi_request options) = Resolved r \<and> (status r < 200 \<or> 299 < status r) \<longrightarrow>
        tgiAdapter ns options fetch
          = Inl (ErrorObj (''TGI adapter failed: TGI API error: '' @ show_nat (status r)
                           @ '' '' @ statusText r))"
    using tgi_not_ok [of fetch options] not_ok by simp
  have tgi4: "\<forall>r t. fetch (tgi_request options) = Resolved r \<and> ok r \<and> json r = Inl t \<longrightarrow>
        tgiAdapter ns options fetch
          = Inl (ErrorObj (''TGI adapter failed: '' @ error_message t))"
    using tgi_no_json [of fetch options] by blast
  have msg: "\<forall>m. error_message (ErrorObj m) = m"
    by (simp add: error_message_def)
  show ?thesis
    by (intro conjI)
       (rule ollama1 ollama2 ollama3 ollama4 vllm1 vllm2 vllm3 vllm4 tgi1 tgi2 tgi3 tgi4 msg)+
qed

theorem adapter_failures_wrapped_witness:
  "answering (Rejected (ErrorObj ''fetch failed''))
      (ollama_request
        \<lparr> model = ''llama3:8b'', messages = [\<lparr> content = Some ''hello'' \<rparr>], baseUrl = None,
          apiKey = None, temperature = None, maxTokens = None, responseFormat = None \<rparr>)
     = Rejected (ErrorObj ''fetch failed'')
   \<and> ollamaAdapter print_integer
      \<lparr> model = ''llama3:8b'', messages = [\<lparr> content = Some ''hello'' \<rparr>], baseUrl = None,
        apiKey = None, temperature = None, maxTokens = None, responseFormat = None \<rparr>
      (answering (Rejected (ErrorObj ''fetch failed'')))
     = Inl (ErrorObj ''Ollama adapter failed: fetch failed'')
   \<and> vllmAdapter
      \<lparr> model = ''llama3:8b'', messages = [\<lparr> content = Some ''hello'' \<rparr>], baseUrl = None,
        apiKey = None, temperature = None, maxTokens = None, responseFormat = None \<rparr>
      (answering (Rejected (ErrorObj ''fetch failed'')))
     = Inl (ErrorObj ''vLLM adapter failed: fetch failed'')
   \<and> tgiAdapter print_integer
      \<lparr> model = ''llama3:8b'', messages = [\<lparr> content = Some ''hello'' \<rparr>], baseUrl = None,
        apiKey = None, temperature = None, maxTokens = None, responseFormat = None \<rparr>
      (answering (Rejected (ErrorObj ''fetch failed'')))
     = Inl (ErrorObj ''TGI adapter failed: fetch failed'')"
  using adapter_failures_wrapped
    [of print_integer
        "\<lparr> model = ''llama3:8b'', messages = [\<lparr> content = Some ''hello'' \<rparr>],
           baseUrl = None, apiKey = None, temperature = None, maxTokens = None,
           responseFormat = None \<rparr>"
        "answering (Rejected (ErrorObj ''fetch failed''))"]
  by (simp add: answering_def error_message_def)


section \<open>Properties of the workflow definition\<close>

lemmas step_defs =
  analyze_research_topic_def design_architecture_def generate_project_structure_def
  create_core_components_def setup_testing_def create_documentation_def
  setup_deployment_def quality_assurance_def

lemma step_ids_flow:
  "step_ids researchToAppFlow =
     [''analyze-research-topic'', ''design-architecture'', ''generate-project-structure'',
      ''create-core-components'', ''setup-testing'', ''create-documentation'',
      ''setup-deployment'', ''quality-assurance'']"
  by (simp add: step_ids_def researchToAppFlow_def step_defs)

text \<open>
  Every dependency of a step stands before the step in the sequence of steps: the number
  of steps before it is smaller.
\<close>

lemma depends_on_earlier:
  assumes "(a, b) \<in> depends_on researchToAppFlow"
  shows "length (takeWhile (\<lambda>i. i \<noteq> b) (step_ids researchToAppFlow))
       < length (takeWhile (\<lambda>i. i \<noteq> a) (step_ids researchToAppFlow))"
proof -
  from assms obtain s where s: "s \<in> set (steps researchToAppFlow)" "a = step_id s"
    "b \<in> set (dependencies s)"
    by (auto simp: depends_on_def)
  from s(1) consider "s = analyze_research_topic" | "s = design_architecture"
    | "s = generate_project_structure" | "s = create_core_components" | "s = setup_testing"
    | "s = create_documentation" | "s = setup_deployment" | "s = quality_assurance"
    by (auto simp: researchToAppFlow_def)
  then show ?thesis
  proof cases
    case 1
    with s show ?thesis by (simp add: step_defs)
  next
    case 2
    with s show ?thesis unfolding step_ids_flow by (auto simp: step_defs)
  next
    case 3
    with s show ?thesis unfolding step_ids_flow by (auto simp: step_defs)
  next
    case 4
    with s show ?thesis unfolding step_ids_flow by (auto simp: step_defs)
  next
    case 5
    with s show ?thesis unfolding step_ids_flow by (auto simp: step_defs)
  next
    case 6
    with s show ?thesis unfolding step_ids_flow by (auto simp: step_defs)
  next
    case 7
    with s show ?thesis unfolding step_ids_flow by (auto simp: step_defs)
  next
    case 8
    with s show ?thesis unfolding step_ids_flow by (auto simp: step_defs)
  qed
qed

lemma prompt_references:
  "referenced_steps analyze_research_topic_prompt = []"
  "referenced_steps design_architecture_prompt = [''analyze-research-topic'']"
  "referenced_steps generate_project_structure_prompt = [''design-architecture'']"
  "referenced_steps create_core_components_prompt
     = [''design-architecture'', ''generate-project-structure'']"
  "referenced_steps setup_testing_prompt = [''design-architecture'', ''create-core-components'']"
  "referenced_steps create_documentation_prompt
     = [''design-architecture'', ''create-core-components'']"
  "referenced_steps setup_deployment_prompt
     = [''generate-project-structure'', ''create-documentation'']"
  "referenced_steps quality_assurance_prompt
     = [''design-architecture'', ''create-core-components'', ''setup-testing'',
        ''create-documentation'', ''setup-deployment'']"
  by (simp_all add: referenced_steps_def step_reference_def List.map_filter_simps
      analyze_research_topic_prompt_def design_architecture_prompt_def
      generate_project_structure_prompt_def create_core_components_prompt_def
      setup_testing_prompt_def create_documentation_prompt_def setup_deployment_prompt_def
      quality_assurance_prompt_def)

text \<open>
  C5. The dependency graph of \<^verbatim>\<open>researchToAppFlow\<close> has no cycle, every dependency of
  every step is the id of a step of the workflow, and no two steps have the same id.
\<close>

theorem dependency_graph_well_formed:
  "acyclic (depends_on researchToAppFlow)
   \<and> no_dangling researchToAppFlow
   \<and> distinct (step_ids researchToAppFlow)"
proof (intro conjI)
  let ?rank = "\<lambda>x. length (takeWhile (\<lambda>i. i \<noteq> x) (step_ids researchToAppFlow))"
  have "depends_on researchToAppFlow \<subseteq> (measure ?rank)\<inverse>"
    using depends_on_earlier by auto
  moreover have "acyclic ((measure ?rank)\<inverse>)"
    by (simp add: wf_acyclic)
  ultimately show "acyclic (depends_on researchToAppFlow)"
    by (rule acyclic_subset [rotated])
  show "no_dangling researchToAppFlow"
    unfolding no_dangling_def step_ids_flow by (simp add: researchToAppFlow_def step_defs)
  show "distinct (step_ids researchToAppFlow)"
    unfolding step_ids_flow by simp
qed

text \<open>
  C1. Three steps name in their prompt the output of a step that they do not declare as
  a dependency: \<^verbatim>\<open>setup-testing\<close>, \<^verbatim>\<open>create-documentation\<close> and
  \<^verbatim>\<open>quality-assurance\<close> each refer to \<^verbatim>\<open>design-architecture.output\<close> and do not list
  \<^verbatim>\<open>design-architecture\<close>. The other five steps declare every step they refer to.
\<close>

theorem undeclared_prompt_references:
  "referenced_steps (prompt (config setup_testing))
     = [''design-architecture'', ''create-core-components'']
   \<and> dependencies setup_testing = [''create-core-components'']
   \<and> \<not> references_declared setup_testing
   \<and> referenced_steps (prompt (config create_documentation))
     = [''design-architecture'', ''create-core-components'']
   \<and> dependencies create_documentation = [''create-core-components'']
   \<and> \<not> references_declared create_documentation
   \<and> referenced_steps (prompt (config quality_assurance))
     = [''design-architecture'', ''create-core-components'', ''setup-testing'',
        ''create-documentation'', ''setup-deployment'']
   \<and> dependencies quality_assurance
     = [''create-core-components'', ''setup-testing'', ''create-documentation'',
        ''setup-deployment'']
   \<and> \<not> references_declared quality_assurance
   \<and> references_declared analyze_research_topic
   \<and> references_declared design_architecture
   \<and> references_declared generate_project_structure
   \<and> references_declared create_core_components
   \<and> references_declared setup_deployment
   \<and> \<not> list_all references_declared (steps researchToAppFlow)"
  by (simp add: references_declared_def researchToAppFlow_def step_defs prompt_references)

section \<open>Registration in the entry points\<close>

lemma registered_before_use_no_register:
  "list_all (\<lambda>p. p \<in> set reg) needed \<Longrightarrow> list_all (\<lambda>c. c = ExecuteWorkflow) cs \<Longrightarrow>
   registered_before_use needed reg cs"
  by (induction cs) simp_all

lemma execute_route_calls: "list_all (\<lambda>c. c = ExecuteWorkflow) (execute_route reqbody)"
  by (simp add: execute_route_def split: sum.splits)

lemma handler_calls: "list_all (\<lambda>c. c = ExecuteWorkflow) (handler req)"
  by (simp add: handler_def split: sum.splits)

lemma concat_calls:
  "(\<And>x. list_all (\<lambda>c. c = ExecuteWorkflow) (f x)) \<Longrightarrow>
   list_all (\<lambda>c. c = ExecuteWorkflow) (concat (map f xs))"
  by (induction xs) simp_all

text \<open>
  C7. In the command-line entry point, the server and the serverless handler, the
  adapters \<^verbatim>\<open>ollama\<close>, \<^verbatim>\<open>vllm\<close> and \<^verbatim>\<open>tgi\<close> are registered before every
  compilation and every execution of the workflow, whatever requests arrive; and the
  provider of every step of \<^verbatim>\<open>researchToAppFlow\<close>, which is \<^verbatim>\<open>ollama\<close> or
  \<^verbatim>\<open>vllm\<close>, is one that \<^verbatim>\<open>registerOpenSourceAdapters\<close> registers.
\<close>

theorem adapters_registered_before_use:
  "registered_before_use [''ollama'', ''vllm'', ''tgi''] [] (main compiled)
   \<and> registered_before_use [''ollama'', ''vllm'', ''tgi''] [] (server compiled bodies)
   \<and> registered_before_use [''ollama'', ''vllm'', ''tgi''] [] (vercel compiled reqs)
   \<and> CompileWorkflow \<in> set (main compiled)
   \<and> CompileWorkflow \<in> set (server compiled bodies)
   \<and> CompileWorkflow \<in> set (vercel compiled reqs)
   \<and> ExecuteWorkflow \<in> set (main True)
   \<and> set (map (\<lambda>s. provider (config s)) (steps researchToAppFlow)) = {''ollama'', ''vllm''}
   \<and> list_all (\<lambda>s. RegisterLLMAdapter (provider (config s)) \<in> set registerOpenSourceAdapters)
        (steps researchToAppFlow)"
proof -
  have reg: "list_all (\<lambda>p. p \<in> set [''tgi'', ''vllm'', ''ollama'']) [''ollama'', ''vllm'', ''tgi'']"
    by simp
  have "registered_before_use [''ollama'', ''vllm'', ''tgi''] [''tgi'', ''vllm'', ''ollama'']
          (concat (map execute_route bodies))"
    using reg by (rule registered_before_use_no_register) (rule concat_calls, rule execute_route_calls)
  moreover have "registered_before_use [''ollama'', ''vllm'', ''tgi''] [''tgi'', ''vllm'', ''ollama'']
          (concat (map handler reqs))"
    using reg by (rule registered_before_use_no_register) (rule concat_calls, rule handler_calls)
  moreover have "set (map (\<lambda>s. provider (config s)) (steps researchToAppFlow))
      = {''ollama'', ''vllm''}"
    by (auto simp add: researchToAppFlow_def step_defs)
  moreover have "list_all
      (\<lambda>s. RegisterLLMAdapter (provider (config s)) \<in> set registerOpenSourceAdapters)
      (steps researchToAppFlow)"
    by (simp add: researchToAppFlow_def step_defs registerOpenSourceAdapters_def)
  ultimately show ?thesis
    by (simp add: main_def server_def vercel_def registerOpenSourceAdapters_def)
qed


end
